theory Spec2Isabelle
  imports Complex_Main "HOL-Library.Char_ord" "HOL-Library.List_Lexorder"
begin

section \<open>Values shared by the service variants\<close>

text \<open>
  The services are Python. An exception that leaves a function is the left summand of
  the function's result; the constructors carry what the source puts into the exception.
  \<open>HTTPException\<close> is FastAPI's (status code and detail), \<open>RequestException\<close> is the base
  class of everything the \<open>requests\<close> library raises (connection errors, timeouts, and the
  \<open>HTTPError\<close> of \<open>raise_for_status\<close>), with its message. \<open>LinAlgError\<close> is numpy's.
\<close>

datatype py_exn =
    RequestException string
  | HTTPException nat string
  | ParseError
  | ValueError string
  | IndexError string
  | LinAlgError string

text \<open>
  A Python float. Finite values are carried as exact rationals, with the negative zero
  apart (\<open>Fin 0\<close> is the positive one): the rounding of binary64 and its overflow are
  not represented. \<open>NaN\<close> is the value pandas uses for a missing cell.
\<close>

datatype pyfloat = Fin rat | NegZero | PInf | NInf | NaN

text \<open>
  A pandas timestamp of a timezone-naive column: \<open>None\<close> is \<open>NaT\<close>, \<open>Some t\<close> is the
  instant \<open>t\<close> on a linear time axis.
\<close>

type_synonym tstamp = "int option"

text \<open>
  The pivoted DataFrame that \<open>bis_credit_chart\<close> hands to \<open>plot_ts\<close>: the row labels, the
  column labels, and the cells column by column (\<open>cells m ! j\<close> is the column \<open>j\<close>, as
  \<open>df.iloc[:, j]\<close>).
\<close>

record matrix =
  index :: "tstamp list"
  columns :: "string list"
  cells :: "pyfloat list list"

section \<open>plot.py\<close>

text \<open>
  A trace added to the figure. \<open>Scatter\<close> carries its \<open>mode\<close> argument (\<open>None\<close> when the
  call gives none, as the line chart does). The second and third fields are the trace's
  \<open>name\<close> and its colour (\<open>marker.color\<close>, \<open>line.color\<close> or \<open>line_color\<close>).
\<close>

datatype trace =
    Bar string string
  | Scatter "string option" string string
  | Violin string string

text \<open>
  The figure keeps the traces in the order of \<open>add_trace\<close>, the axis title and the
  theme's text colour; layout attributes that no property below reads are not carried.
\<close>

record figure =
  traces :: "trace list"
  yaxis_title :: string
  font_color :: string

text \<open>
  Lines 9 to 20 of \<open>plot_ts\<close>. The first \<open>if\<close> stands alone, and the chain that follows
  starts with a second \<open>if\<close> and ends in an \<open>else\<close>, so it assigns \<open>colors\<close> on every
  path: with one column the one-colour list is replaced by the list of the \<open>else\<close>.
\<close>

definition select_colors :: "nat \<Rightarrow> string list" where
  "select_colors n =
     (let colors1 = (if n = 1 then [''#f1c40f''] else []);
          colors =
            (if n = 2 then [''#f1c40f'', ''#2ecc71'']
             else if n = 3 then [''#f1c40f'', ''#2ecc71'', ''#9b59b6'', ''#e74c3c'', ''#bababa'']
             else if n = 4 then
               [''#f1c40f'', ''#2ecc71'', ''#9b59b6'', ''#e74c3c'', ''#bababa'', ''#0f3cf1'']
             else if n = 5 then
               [''#f1c40f'', ''#2ecc71'', ''#9b59b6'', ''#e74c3c'', ''#bababa'', ''#0f3cf1'',
                ''#cc2e89'']
             else
               [''#f1c40f'', ''#2ecc71'', ''#9b59b6'', ''#e74c3c'', ''#bababa'', ''#0f3cf1'',
                ''#cc2e89'', ''#b69b59'', ''#5974b6'', ''#3cd7e7'', ''#7d2eff'', ''#adf10f'',
                ''#abecc7''])
      in colors)"

text \<open>\<open>colors[i]\<close> for a non-negative \<open>i\<close>: Python raises \<open>IndexError\<close> past the end.\<close>

definition colors_at :: "string list \<Rightarrow> nat \<Rightarrow> py_exn + string" where
  "colors_at colors i =
     (if i < length colors then Inr (colors ! i) else Inl (IndexError ''list index out of range''))"

text \<open>
  The loops \<open>for i in range(len(df.columns))\<close> of the bar and the line chart, over the
  indices still to visit; \<open>mk\<close> builds the trace from the column's name and colour. The
  first \<open>IndexError\<close> ends \<open>plot_ts\<close>.
\<close>

fun add_indexed_traces ::
  "(string \<Rightarrow> string \<Rightarrow> trace) \<Rightarrow> string list \<Rightarrow> string list \<Rightarrow> nat list \<Rightarrow> trace list
     \<Rightarrow> py_exn + trace list" where
  "add_indexed_traces mk colors names [] fig = Inr fig"
| "add_indexed_traces mk colors names (i # rest) fig =
     (case colors_at colors i of
        Inl e \<Rightarrow> Inl e
      | Inr c \<Rightarrow> add_indexed_traces mk colors names rest (fig @ [mk (names ! i) c]))"

text \<open>\<open>Series.dropna()\<close>: the cells that are not \<open>NaN\<close>, in order.\<close>

definition dropna :: "pyfloat list \<Rightarrow> pyfloat list" where
  "dropna ys = filter (\<lambda>y. y \<noteq> NaN) ys"

text \<open>
  The distribution chart: \<open>for i, col in enumerate(df.columns)\<close>, one violin coloured
  \<open>colors[i % len(colors)]\<close> and, when the column has a value, the marker of the latest one.
\<close>

fun add_violin_traces ::
  "string list \<Rightarrow> string list \<Rightarrow> pyfloat list list \<Rightarrow> nat list \<Rightarrow> trace list \<Rightarrow> trace list" where
  "add_violin_traces colors names cols [] fig = fig"
| "add_violin_traces colors names cols (i # rest) fig =
     (let y = dropna (cols ! i);
          fig1 = fig @ [Violin (names ! i) (colors ! (i mod length colors))];
          fig2 = (if y \<noteq> [] then fig1 @ [Scatter (Some ''markers'') ''Latest'' ''red''] else fig1)
      in add_violin_traces colors names cols rest fig2)"

text \<open>
  The regression chart reads the first two columns only and uses three fixed colours.
  The fitted line is drawn when more than one row has both values; its coefficients come
  from \<open>np.polyfit\<close>, which is the parameter \<open>polyfit\<close>: the two coefficients, or the
  exception that numpy raises (a \<open>LinAlgError\<close> when its solver does not converge, as
  with an infinite cell, which the \<open>isna\<close> mask leaves in). An exception ends \<open>plot_ts\<close>.
\<close>

definition regression_traces ::
  "(pyfloat list \<Rightarrow> pyfloat list \<Rightarrow> py_exn + pyfloat \<times> pyfloat) \<Rightarrow> matrix \<Rightarrow> py_exn + trace list" where
  "regression_traces polyfit df =
     (if 2 \<le> length (columns df) then
        (let both = filter (\<lambda>(x, y). x \<noteq> NaN \<and> y \<noteq> NaN) (zip (cells df ! 0) (cells df ! 1));
             all_points =
               [Scatter (Some ''markers'')
                  (columns df ! 0 @ '' vs '' @ columns df ! 1 @ '' (All)'') ''#3b7484''];
             recent = [Scatter (Some ''markers'') ''Latest 12'' ''red'']
         in if 1 < length both then
              (case polyfit (map fst both) (map snd both) of
                 Inl e \<Rightarrow> Inl e
               | Inr coef \<Rightarrow>
                   Inr (all_points @ [Scatter (Some ''lines'') ''Regression'' ''#ec772a''] @ recent))
            else Inr (all_points @ recent))
      else Inr [])"

definition plot_ts ::
  "(pyfloat list \<Rightarrow> pyfloat list \<Rightarrow> py_exn + pyfloat \<times> pyfloat) \<Rightarrow> matrix \<Rightarrow> string \<Rightarrow> string
     \<Rightarrow> string \<Rightarrow> string \<Rightarrow> py_exn + figure" where
  "plot_ts polyfit df nome units chart theme =
     (let n = length (columns df);
          colors = select_colors n;
          drawn =
            (if chart = ''Bar'' \<or> chart = ''Bar_PCT'' \<or> chart = ''bar'' then
               add_indexed_traces Bar colors (columns df) [0..<n] []
             else if chart = ''regression'' then regression_traces polyfit df
             else if chart = ''distribution'' then
               Inr (add_violin_traces colors (columns df) (cells df) [0..<n] [])
             else add_indexed_traces (Scatter None) colors (columns df) [0..<n] []);
          text_color = (if theme = ''light'' then ''#0D1018'' else ''#FFFFFF'')
      in case drawn of
           Inl e \<Rightarrow> Inl e
         | Inr ts \<Rightarrow> Inr \<lparr>traces = ts, yaxis_title = units, font_color = text_color\<rparr>)"

text \<open>
  The colours given to the columns, in column order: those of the traces drawn once per
  column (a bar, a line without a mode, a violin). Markers and the regression traces are
  not column traces.
\<close>

fun column_color :: "trace \<Rightarrow> string list" where
  "column_color (Bar nm c) = [c]"
| "column_color (Violin nm c) = [c]"
| "column_color (Scatter None nm c) = [c]"
| "column_color (Scatter (Some m) nm c) = []"

definition column_colors :: "py_exn + figure \<Rightarrow> py_exn + string list" where
  "column_colors r =
     (case r of Inl e \<Rightarrow> Inl e | Inr fig \<Rightarrow> Inr (concat (map column_color (traces fig))))"

section \<open>The XML observation parser\<close>

text \<open>
  The tree that \<open>ET.fromstring\<close> returns: an element has a tag, its attributes (a dict,
  read with \<open>map_of\<close>) and its children in document order. Text content is not read by
  the parser and is not carried.
\<close>

datatype element = Element (tag: string) (attrib: "(string \<times> string) list") (children: "element list")

text \<open>\<open>elem.get(key)\<close>: \<open>None\<close> when the attribute is absent.\<close>

definition elem_get :: "element \<Rightarrow> string \<Rightarrow> string option" where
  "elem_get e k = map_of (attrib e) k"

text \<open>\<open>elem.iter()\<close>: the element and everything below it, in document order.\<close>

fun iter :: "element \<Rightarrow> element list" where
  "iter (Element t a cs) = Element t a cs # concat (map iter cs)"

text \<open>
  \<open>root.findall('.//Series')\<close> walks \<open>root.iter('Series')\<close> and skips \<open>root\<close> itself, so
  it yields the elements below the root with that tag; \<open>series.findall('Obs')\<close> yields the
  children with that tag.
\<close>

definition findall_descendants :: "element \<Rightarrow> string \<Rightarrow> element list" where
  "findall_descendants e tg = filter (\<lambda>x. tag x = tg) (concat (map iter (children e)))"

definition findall_children :: "element \<Rightarrow> string \<Rightarrow> element list" where
  "findall_children e tg = filter (\<lambda>x. tag x = tg) (children e)"

subsection \<open>Python's \<open>float(str)\<close>\<close>

text \<open>
  \<open>float\<close> strips whitespace, then reads an optional sign followed by \<open>inf\<close>, \<open>infinity\<close>
  or \<open>nan\<close> in any case, or by a decimal number with an optional exponent; single
  underscores may separate digits. Anything else raises \<open>ValueError\<close> (here \<open>None\<close>).
  Characters are bytes, so only the ASCII digits and spaces are recognised.
\<close>

definition is_space :: "char \<Rightarrow> bool" where
  "is_space c = (c = CHR '' '' \<or> (9 \<le> (of_char c :: nat) \<and> (of_char c :: nat) \<le> 13)
                 \<or> (28 \<le> (of_char c :: nat) \<and> (of_char c :: nat) \<le> 31))"

definition strip :: "string \<Rightarrow> string" where
  "strip s = rev (dropWhile is_space (rev (dropWhile is_space s)))"

definition is_digit :: "char \<Rightarrow> bool" where
  "is_digit c = (48 \<le> (of_char c :: nat) \<and> (of_char c :: nat) \<le> 57)"

definition digits_value :: "string \<Rightarrow> nat" where
  "digits_value ds = foldl (\<lambda>a c. 10 * a + (of_char c - 48)) 0 ds"

definition lower :: "string \<Rightarrow> string" where
  "lower s = map (\<lambda>c. if 65 \<le> (of_char c :: nat) \<and> (of_char c :: nat) \<le> 90
                       then char_of ((of_char c :: nat) + 32) else c) s"

text \<open>
  The longest \<open>digit (["_"] digit)*\<close> at the front of the text, without its underscores,
  and the text after it.
\<close>

fun digitpart :: "string \<Rightarrow> string \<times> string" where
  "digitpart [] = ([], [])"
| "digitpart [c] = (if is_digit c then ([c], []) else ([], [c]))"
| "digitpart (c # d # cs) =
     (if \<not> is_digit c then ([], c # d # cs)
      else if is_digit d then (c # fst (digitpart (d # cs)), snd (digitpart (d # cs)))
      else if d = CHR ''_'' \<and> cs \<noteq> [] \<and> is_digit (hd cs) then
        (c # fst (digitpart cs), snd (digitpart cs))
      else ([c], d # cs))"

text \<open>\<open>[digitpart] "." digitpart | digitpart ["."]\<close>: the value read and the text after it.\<close>

definition number :: "string \<Rightarrow> (rat \<times> string) option" where
  "number s =
     (let (ip, r1) = digitpart s in
      if r1 \<noteq> [] \<and> hd r1 = CHR ''.'' then
        (let (fp, r2) = digitpart (tl r1) in
         if ip = [] \<and> fp = [] then None
         else Some (of_nat (digits_value ip) + of_nat (digits_value fp) / 10 ^ length fp, r2))
      else if ip = [] then None
      else Some (of_nat (digits_value ip), r1))"

text \<open>The optional exponent, which must end the text: the power of ten to apply.\<close>

definition exponent :: "string \<Rightarrow> rat option" where
  "exponent s =
     (if s = [] then Some 1
      else if hd s = CHR ''e'' \<or> hd s = CHR ''E'' then
        (let t = tl s;
             neg = (t \<noteq> [] \<and> hd t = CHR ''-'');
             u = (if t \<noteq> [] \<and> (hd t = CHR ''-'' \<or> hd t = CHR ''+'') then tl t else t);
             (ds, r) = digitpart u
         in if ds = [] \<or> r \<noteq> [] then None
            else Some (if neg then 1 / 10 ^ digits_value ds else 10 ^ digits_value ds))
      else None)"

definition py_float :: "string \<Rightarrow> pyfloat option" where
  "py_float s =
     (let t = strip s;
          neg = (t \<noteq> [] \<and> hd t = CHR ''-'');
          u = (if t \<noteq> [] \<and> (hd t = CHR ''-'' \<or> hd t = CHR ''+'') then tl t else t)
      in if lower u = ''inf'' \<or> lower u = ''infinity'' then Some (if neg then NInf else PInf)
         else if lower u = ''nan'' then Some NaN
         else (case number u of
                 None \<Rightarrow> None
               | Some (m, r) \<Rightarrow>
                   (case exponent r of
                      None \<Rightarrow> None
                    | Some p \<Rightarrow>
                        Some (if m * p = 0 then (if neg then NegZero else Fin 0)
                              else Fin ((if neg then - m else m) * p)))))"

subsection \<open>\<open>parse_bis_xml\<close>\<close>

text \<open>
  An observation record, the dict the parser appends: \<open>Date\<close> is the \<open>TIME_PERIOD\<close>
  attribute as \<open>obs.get\<close> returns it, \<open>Value\<close> is \<open>None\<close> or a float. The type of the date
  is a parameter, because the chart endpoint later replaces the labels by timestamps.
\<close>

record 'd obs =
  Date :: 'd
  Value :: "pyfloat option"
  Country :: string

text \<open>
  \<open>float(obs.get('OBS_VALUE')) if obs.get('OBS_VALUE') else None\<close>: an absent attribute
  and the empty string are false in Python; any other text goes to \<open>float\<close>, which may raise.
  The message of the \<open>ValueError\<close> names the text, here without the quotes that Python's
  \<open>repr\<close> puts around it.
\<close>

definition obs_value :: "element \<Rightarrow> py_exn + pyfloat option" where
  "obs_value ob =
     (case elem_get ob ''OBS_VALUE'' of
        None \<Rightarrow> Inr None
      | Some v \<Rightarrow>
          if v = [] then Inr None
          else (case py_float v of
                  None \<Rightarrow> Inl (ValueError (''could not convert string to float: '' @ v))
                | Some x \<Rightarrow> Inr (Some x)))"

definition obs_record :: "string \<Rightarrow> element \<Rightarrow> py_exn + string option obs" where
  "obs_record country_code ob =
     (case obs_value ob of
        Inl e \<Rightarrow> Inl e
      | Inr v \<Rightarrow> Inr \<lparr>Date = elem_get ob ''TIME_PERIOD'', Value = v, Country = country_code\<rparr>)"

text \<open>\<open>series.get('BORROWERS_CTY', 'Unknown')\<close>.\<close>

definition country_of :: "element \<Rightarrow> string" where
  "country_of series =
     (case elem_get series ''BORROWERS_CTY'' of None \<Rightarrow> ''Unknown'' | Some c \<Rightarrow> c)"

text \<open>
  The inner and the outer loop, over the elements still to visit, with the list \<open>data\<close>
  built so far. An exception leaves both loops.
\<close>

fun append_obs ::
  "string \<Rightarrow> element list \<Rightarrow> string option obs list \<Rightarrow> py_exn + string option obs list" where
  "append_obs country_code [] data = Inr data"
| "append_obs country_code (ob # rest) data =
     (case obs_record country_code ob of
        Inl e \<Rightarrow> Inl e
      | Inr r \<Rightarrow> append_obs country_code rest (data @ [r]))"

fun append_series ::
  "element list \<Rightarrow> string option obs list \<Rightarrow> py_exn + string option obs list" where
  "append_series [] data = Inr data"
| "append_series (series # rest) data =
     (case append_obs (country_of series) (findall_children series ''Obs'') data of
        Inl e \<Rightarrow> Inl e
      | Inr data' \<Rightarrow> append_series rest data')"

text \<open>The parser on a parsed document: the body of \<open>parse_bis_xml\<close> after \<open>ET.fromstring\<close>.\<close>

definition parse_root :: "element \<Rightarrow> py_exn + string option obs list" where
  "parse_root doc = append_series (findall_descendants doc ''Series'') []"

text \<open>
  The \<open>Obs\<close> elements the parser visits, in the order it visits them: series by series.
\<close>

definition visited_obs :: "element \<Rightarrow> element list" where
  "visited_obs doc =
     concat (map (\<lambda>series. findall_children series ''Obs'') (findall_descendants doc ''Series''))"

section \<open>The pandas steps of \<open>bis_credit_chart\<close>\<close>

text \<open>
  A DataFrame with the columns \<open>Date\<close>, \<open>Value\<close> and \<open>Country\<close> is the list of its rows.
  \<open>pd.DataFrame(data)\<close> of the parser's list is that list, and \<open>df.empty\<close> holds when it
  has no row. A \<open>Value\<close> of \<open>None\<close> is \<open>NaN\<close> in the frame.
\<close>

definition cell_of :: "pyfloat option \<Rightarrow> pyfloat" where
  "cell_of v = (case v of None \<Rightarrow> NaN | Some x \<Rightarrow> x)"

text \<open>
  \<open>pd.PeriodIndex(df['Date'], freq='Q').to_timestamp()\<close>. How pandas reads one period
  label is the parameter \<open>period_start\<close>: the first instant of the label's quarter, \<open>NaT\<close>
  for a label that pandas takes as missing (the empty string is one), or \<open>None\<close> when
  pandas rejects the label, which raises for the whole column. An absent label (\<open>None\<close>)
  becomes \<open>NaT\<close>.
\<close>

definition to_timestamp ::
  "(string \<Rightarrow> tstamp option) \<Rightarrow> string option obs list \<Rightarrow> py_exn + tstamp obs list" where
  "to_timestamp period_start df =
     (if \<exists>r \<in> set df. (case Date r of None \<Rightarrow> False | Some l \<Rightarrow> period_start l = None)
      then Inl (ValueError ''Unknown datetime string format'')
      else Inr (map (\<lambda>r. \<lparr>Date = (case Date r of
                                        None \<Rightarrow> None
                                      | Some l \<Rightarrow> (case period_start l of None \<Rightarrow> None | Some t \<Rightarrow> t)),
                            Value = Value r, Country = Country r\<rparr>) df))"

text \<open>
  \<open>df.sort_values("Date")\<close>: ascending, \<open>NaT\<close> last. Rows with equal dates keep their
  order here; pandas' default sort does not promise an order among them, and nothing
  below depends on it.
\<close>

definition sort_values :: "tstamp obs list \<Rightarrow> tstamp obs list" where
  "sort_values df =
     sort_key (\<lambda>r. the (Date r)) (filter (\<lambda>r. Date r \<noteq> None) df) @ filter (\<lambda>r. Date r = None) df"

text \<open>\<open>df['Date'] >= start\<close> for one row: a comparison with \<open>NaT\<close> is false.\<close>

definition ts_ge :: "tstamp \<Rightarrow> tstamp \<Rightarrow> bool" where
  "ts_ge d start = (case (d, start) of (Some a, Some b) \<Rightarrow> b \<le> a | _ \<Rightarrow> False)"

text \<open>
  The endpoint's response: a \<open>JSONResponse\<close> with its content and status code.
\<close>

datatype body = ErrorBody string | FigureBody figure

datatype response = JSONResponse body nat

text \<open>
  Lines 61 to 66 of chart.py (181 to 186 of BIS.py). \<open>startdate\<close> is \<open>None\<close> when the
  query has none; \<open>None\<close> and the empty string skip the filter. \<open>to_datetime\<close> is
  \<open>pd.to_datetime\<close> on the text: the timestamp, or the message of the exception it
  raises. The left summand is the response the \<open>except\<close> branch returns. Start dates
  are timezone-naive, as the \<open>yyyy-mm-dd\<close> dates of the endpoint's description are.
\<close>

definition filter_startdate ::
  "(string \<Rightarrow> string + tstamp) \<Rightarrow> string option \<Rightarrow> tstamp obs list \<Rightarrow> response + tstamp obs list" where
  "filter_startdate to_datetime startdate df =
     (case startdate of
        None \<Rightarrow> Inr df
      | Some s \<Rightarrow>
          if s = [] then Inr df
          else (case to_datetime s of
                  Inl msg \<Rightarrow> Inl (JSONResponse (ErrorBody (''Invalid startdate: '' @ msg)) 400)
                | Inr start \<Rightarrow> Inr (filter (\<lambda>r. ts_ge (Date r) start) df)))"

text \<open>\<open>sort_index()\<close> on the dates of the pivot: ascending, \<open>NaT\<close> last.\<close>

definition sort_index :: "tstamp list \<Rightarrow> tstamp list" where
  "sort_index ds = map Some (sort (concat (map (\<lambda>d. case d of None \<Rightarrow> [] | Some t \<Rightarrow> [t]) ds)))
                   @ filter (\<lambda>d. d = None) ds"

text \<open>The cell of the pivot at a date and a country: the row's value, \<open>NaN\<close> without a row.\<close>

definition pivot_cell :: "tstamp obs list \<Rightarrow> tstamp \<Rightarrow> string \<Rightarrow> pyfloat" where
  "pivot_cell df d c =
     (case find (\<lambda>r. Date r = d \<and> Country r = c) df of
        None \<Rightarrow> NaN
      | Some r \<Rightarrow> cell_of (Value r))"

text \<open>
  \<open>df.pivot(index="Date", columns="Country", values="Value").sort_index()\<close>.
  \<open>DataFrame.pivot\<close> does not aggregate: when two rows have the same date and country
  it raises \<open>ValueError\<close>. Otherwise the rows are the distinct dates, the columns the
  distinct countries in sorted order.
\<close>

definition pivot :: "tstamp obs list \<Rightarrow> py_exn + matrix" where
  "pivot df =
     (if \<not> distinct (map (\<lambda>r. (Date r, Country r)) df)
      then Inl (ValueError ''Index contains duplicate entries, cannot reshape'')
      else
        (let idx = sort_index (remdups (map Date df));
             cols = sort (remdups (map Country df))
         in Inr \<lparr>index = idx, columns = cols,
                 cells = map (\<lambda>c. map (\<lambda>d. pivot_cell df d c) idx) cols\<rparr>))"

subsection \<open>\<open>pct_change\<close>\<close>

text \<open>
  Float division and subtraction as numpy computes them on a float column, by the rules
  of IEEE 754 for the special values: a \<open>NaN\<close> operand gives \<open>NaN\<close>; zero by zero and
  infinity by infinity give \<open>NaN\<close>; division by a zero gives an infinity and division by
  an infinity a zero, with the sign of the quotient; equal infinities subtracted give
  \<open>NaN\<close>; a difference that is zero is the positive zero, except for \<open>-0 - 0\<close>. Nothing
  raises. \<open>negative\<close> is the sign bit and \<open>rat_of\<close> the value of a finite float.
\<close>

fun negative :: "pyfloat \<Rightarrow> bool" where
  "negative (Fin a) = (a < 0)"
| "negative NegZero = True"
| "negative NInf = True"
| "negative PInf = False"
| "negative NaN = False"

fun is_zero :: "pyfloat \<Rightarrow> bool" where
  "is_zero (Fin a) = (a = 0)"
| "is_zero NegZero = True"
| "is_zero x = False"

fun is_inf :: "pyfloat \<Rightarrow> bool" where
  "is_inf PInf = True"
| "is_inf NInf = True"
| "is_inf x = False"

fun rat_of :: "pyfloat \<Rightarrow> rat" where
  "rat_of (Fin a) = a"
| "rat_of x = 0"

definition signed_zero :: "bool \<Rightarrow> pyfloat" where
  "signed_zero neg = (if neg then NegZero else Fin 0)"

definition signed_inf :: "bool \<Rightarrow> pyfloat" where
  "signed_inf neg = (if neg then NInf else PInf)"

definition fdiv :: "pyfloat \<Rightarrow> pyfloat \<Rightarrow> pyfloat" where
  "fdiv x y =
     (if x = NaN \<or> y = NaN then NaN
      else if (is_zero x \<and> is_zero y) \<or> (is_inf x \<and> is_inf y) then NaN
      else if is_inf x \<or> is_zero y then signed_inf (negative x \<noteq> negative y)
      else if is_zero x \<or> is_inf y then signed_zero (negative x \<noteq> negative y)
      else Fin (rat_of x / rat_of y))"

definition fsub :: "pyfloat \<Rightarrow> pyfloat \<Rightarrow> pyfloat" where
  "fsub x y =
     (if x = NaN \<or> y = NaN then NaN
      else if is_inf x then (if y = x then NaN else x)
      else if is_inf y then (if y = PInf then NInf else PInf)
      else if rat_of x - rat_of y = 0 then signed_zero (x = NegZero \<and> y = Fin 0)
      else Fin (rat_of x - rat_of y))"

text \<open>
  \<open>pct_change(periods, fill_method)\<close>. With \<open>fill_method='pad'\<close> every column is
  forward-filled first (a \<open>NaN\<close> takes the last value above it that is not \<open>NaN\<close>; a
  leading \<open>NaN\<close> stays), with \<open>fill_method=None\<close> the column is taken as it is; the result
  is \<open>data / data.shift(periods) - 1\<close>. \<open>pad_from prev\<close> fills with \<open>prev\<close> until the
  column has a value of its own.
\<close>

datatype fill_method = Pad | No_fill

fun pad_from :: "pyfloat \<Rightarrow> pyfloat list \<Rightarrow> pyfloat list" where
  "pad_from prev [] = []"
| "pad_from prev (x # xs) = (if x = NaN then prev # pad_from prev xs else x # pad_from x xs)"

definition pad :: "pyfloat list \<Rightarrow> pyfloat list" where
  "pad col = pad_from NaN col"

text \<open>\<open>shift(periods)\<close>: the column moved down, \<open>NaN\<close> in the first \<open>periods\<close> rows.\<close>

definition shift :: "nat \<Rightarrow> pyfloat list \<Rightarrow> pyfloat list" where
  "shift periods col = take (length col) (replicate periods NaN @ col)"

definition pct_change_column :: "fill_method \<Rightarrow> nat \<Rightarrow> pyfloat list \<Rightarrow> pyfloat list" where
  "pct_change_column fill periods col =
     (let data = (case fill of Pad \<Rightarrow> pad col | No_fill \<Rightarrow> col);
          shifted = shift periods data
      in map (\<lambda>(a, b). fsub (fdiv a b) (Fin 1)) (zip data shifted))"

definition pct_change :: "fill_method \<Rightarrow> nat \<Rightarrow> matrix \<Rightarrow> matrix" where
  "pct_change fill periods df = df\<lparr>cells := map (pct_change_column fill periods) (cells df)\<rparr>"

text \<open>
  Lines 72 to 79 of chart.py (192 to 199 of BIS.py): the transformed matrix and the units
  label. Any mode other than \<open>yoy\<close> and \<open>qoq\<close> leaves both as they are. The services
  call \<open>pct_change(periods=...)\<close> and leave \<open>fill_method\<close> to the default of the pandas
  that is installed (\<open>'pad'\<close> before pandas 3.0, \<open>None\<close> from 3.0 on); they pin no
  release, so the default is the parameter \<open>fill\<close>.
\<close>

definition apply_mode :: "fill_method \<Rightarrow> string \<Rightarrow> string \<Rightarrow> matrix \<Rightarrow> matrix \<times> string" where
  "apply_mode fill mode units df_pivot =
     (if mode = ''yoy'' then (pct_change fill 4 df_pivot, ''YoY % change'')
      else if mode = ''qoq'' then (pct_change fill 1 df_pivot, ''QoQ % change'')
      else (df_pivot, units))"

section \<open>Fetching and the endpoints\<close>

text \<open>
  What lies outside the services is a parameter of every function that reaches it:
  \<^item> \<open>requests_get url\<close> is the outcome of \<open>requests.get(url, headers=...)\<close>: the call
    raises (no connection, DNS failure, timeout; all are \<open>RequestException\<close>s) or it
    returns a response with a status code, a reason phrase and a body;
  \<^item> \<open>fromstring\<close> is \<open>ET.fromstring\<close>: the document's root, or \<open>None\<close> for a
    \<open>ParseError\<close>;
  \<^item> \<open>period_start\<close> and \<open>to_datetime\<close> are pandas' readers of period labels and of
    dates, and \<open>pct_change_fill\<close> is the default \<open>fill_method\<close> of its \<open>pct_change\<close>;
  \<^item> \<open>np_polyfit\<close> is numpy's \<open>polyfit\<close> of degree one;
  \<^item> \<open>plot_available\<close> says whether BIS.py could import \<open>plot_ts\<close> and plotly.
\<close>

datatype http_outcome = Raises string | Replies nat string string

record env =
  requests_get :: "string \<Rightarrow> http_outcome"
  fromstring :: "string \<Rightarrow> element option"
  period_start :: "string \<Rightarrow> tstamp option"
  to_datetime :: "string \<Rightarrow> string + tstamp"
  pct_change_fill :: fill_method
  np_polyfit :: "pyfloat list \<Rightarrow> pyfloat list \<Rightarrow> py_exn + pyfloat \<times> pyfloat"
  plot_available :: bool

text \<open>\<open>str(n)\<close> for a status code.\<close>

fun show_nat :: "nat \<Rightarrow> string" where
  "show_nat n =
     (if n < 10 then [char_of (48 + n)] else show_nat (n div 10) @ [char_of (48 + n mod 10)])"

text \<open>
  \<open>response.raise_for_status()\<close>: an \<open>HTTPError\<close> for a status from 400 to 599, nothing
  otherwise.
\<close>

definition raise_for_status :: "string \<Rightarrow> nat \<Rightarrow> string \<Rightarrow> py_exn + unit" where
  "raise_for_status url status reason =
     (if 400 \<le> status \<and> status < 500 then
        Inl (RequestException (show_nat status @ '' Client Error: '' @ reason @ '' for url: '' @ url))
      else if 500 \<le> status \<and> status < 600 then
        Inl (RequestException (show_nat status @ '' Server Error: '' @ reason @ '' for url: '' @ url))
      else Inr ())"

text \<open>\<open>requests.get\<close> followed by \<open>raise_for_status\<close>; the result is \<open>response.text\<close>.\<close>

definition get_text :: "env \<Rightarrow> string \<Rightarrow> py_exn + string" where
  "get_text ev url =
     (case requests_get ev url of
        Raises msg \<Rightarrow> Inl (RequestException msg)
      | Replies status reason txt \<Rightarrow>
          (case raise_for_status url status reason of Inl e \<Rightarrow> Inl e | Inr u \<Rightarrow> Inr txt))"

text \<open>\<open>parse_bis_xml\<close> (and \<open>parse_bis_xml_df\<close>, the same list as a DataFrame) on the text.\<close>

definition parse_bis_xml :: "env \<Rightarrow> string \<Rightarrow> py_exn + string option obs list" where
  "parse_bis_xml ev xml_text =
     (case fromstring ev xml_text of None \<Rightarrow> Inl ParseError | Some doc \<Rightarrow> parse_root doc)"

text \<open>
  \<open>fetch_bis_data\<close> of main.py and BIS.py. The \<open>try\<close> covers the request and the parse;
  the \<open>except\<close> clause catches \<open>RequestException\<close> only and raises an \<open>HTTPException\<close>
  with status 500 and the message in its detail.
\<close>

definition fetch_bis_data ::
  "env \<Rightarrow> string \<Rightarrow> string \<Rightarrow> string \<Rightarrow> string \<Rightarrow> string \<Rightarrow> py_exn + string option obs list" where
  "fetch_bis_data ev context agency_id resource_id version key =
     (let url = ''https://stats.bis.org/api/v2/data/'' @ context @ ''/'' @ agency_id @ ''/''
                @ resource_id @ ''/'' @ version @ ''/'' @ key;
          attempt = (case get_text ev url of Inl e \<Rightarrow> Inl e | Inr txt \<Rightarrow> parse_bis_xml ev txt)
      in case attempt of
           Inl (RequestException msg) \<Rightarrow>
             Inl (HTTPException 500 (''Error fetching BIS series: '' @ msg))
         | Inl e \<Rightarrow> Inl e
         | Inr data \<Rightarrow> Inr data)"

text \<open>
  \<open>fetch_bis_data_simple\<close> of BIS.py and \<open>fetch_bis_data\<close> of chart.py: the same four
  lines, with no \<open>try\<close>.
\<close>

definition fetch_bis_data_simple :: "env \<Rightarrow> string \<Rightarrow> string \<Rightarrow> py_exn + string" where
  "fetch_bis_data_simple ev resource_id key =
     get_text ev (''https://stats.bis.org/api/v2/data/dataflow/BIS/'' @ resource_id @ ''/+/'' @ key)"

definition chart_fetch_bis_data :: "env \<Rightarrow> string \<Rightarrow> string \<Rightarrow> py_exn + string" where
  "chart_fetch_bis_data ev resource_id key =
     get_text ev (''https://stats.bis.org/api/v2/data/dataflow/BIS/'' @ resource_id @ ''/+/'' @ key)"

text \<open>
  \<open>bis_credit_table\<close> of main.py and BIS.py: the rows of the parser. Every row has the
  three keys, so the \<open>KeyError\<close> branch of the loop is never taken.
\<close>

definition bis_credit_table :: "env \<Rightarrow> string \<Rightarrow> string \<Rightarrow> py_exn + string option obs list" where
  "bis_credit_table ev resource_id key =
     (case fetch_bis_data ev ''dataflow'' ''BIS'' resource_id ''+'' key of
        Inl e \<Rightarrow> Inl e
      | Inr data \<Rightarrow>
          Inr (map (\<lambda>row. \<lparr>Date = Date row, Value = Value row, Country = Country row\<rparr>) data))"

text \<open>
  The part of \<open>bis_credit_chart\<close> that both files share word for word, from the parsed
  frame to the pivot and the units label (lines 53 to 79 of chart.py, 173 to 199 of
  BIS.py). The right summand is what goes on to the renderer; the left one ends the
  request, with a response or with an exception.
\<close>

definition chart_frame ::
  "env \<Rightarrow> string \<Rightarrow> string option \<Rightarrow> string \<Rightarrow> string option obs list
     \<Rightarrow> (py_exn + response) + (matrix \<times> string)" where
  "chart_frame ev units startdate mode df =
     (if df = [] then Inl (Inr (JSONResponse (ErrorBody ''No data returned from BIS.'') 404))
      else
        (case to_timestamp (period_start ev) df of
           Inl e \<Rightarrow> Inl (Inl e)
         | Inr df1 \<Rightarrow>
             (case filter_startdate (to_datetime ev) startdate (sort_values df1) of
                Inl resp \<Rightarrow> Inl (Inr resp)
              | Inr df2 \<Rightarrow>
                  (case pivot df2 of
                     Inl e \<Rightarrow> Inl (Inl e)
                   | Inr df_pivot \<Rightarrow>
                       Inr (apply_mode (pct_change_fill ev) mode units df_pivot)))))"

text \<open>\<open>plot_ts(df_pivot, nome="BIS Data", units=units, theme=theme)\<close> and the response.\<close>

definition render :: "env \<Rightarrow> matrix \<times> string \<Rightarrow> string \<Rightarrow> py_exn + response" where
  "render ev mu theme =
     (case plot_ts (np_polyfit ev) (fst mu) ''BIS Data'' (snd mu) ''line'' theme of
        Inl e \<Rightarrow> Inl e
      | Inr fig \<Rightarrow> Inr (JSONResponse (FigureBody fig) 200))"

text \<open>\<open>bis_credit_chart\<close> of chart.py.\<close>

definition chart_bis_credit_chart ::
  "env \<Rightarrow> string \<Rightarrow> string \<Rightarrow> string \<Rightarrow> string \<Rightarrow> string option \<Rightarrow> string \<Rightarrow> py_exn + response" where
  "chart_bis_credit_chart ev resource_id key units theme startdate mode =
     (case chart_fetch_bis_data ev resource_id key of
        Inl e \<Rightarrow> Inl e
      | Inr xml_text \<Rightarrow>
          (case parse_bis_xml ev xml_text of
             Inl e \<Rightarrow> Inl e
           | Inr df \<Rightarrow>
               (case chart_frame ev units startdate mode df of
                  Inl done \<Rightarrow> done
                | Inr mu \<Rightarrow> render ev mu theme)))"

text \<open>
  \<open>bis_credit_chart\<close> of BIS.py: the same, with the check that the renderer was imported.
\<close>

definition bis_credit_chart ::
  "env \<Rightarrow> string \<Rightarrow> string \<Rightarrow> string \<Rightarrow> string \<Rightarrow> string option \<Rightarrow> string \<Rightarrow> py_exn + response" where
  "bis_credit_chart ev resource_id key units theme startdate mode =
     (case fetch_bis_data_simple ev resource_id key of
        Inl e \<Rightarrow> Inl e
      | Inr xml_text \<Rightarrow>
          (case parse_bis_xml ev xml_text of
             Inl e \<Rightarrow> Inl e
           | Inr df \<Rightarrow>
               (case chart_frame ev units startdate mode df of
                  Inl done \<Rightarrow> done
                | Inr mu \<Rightarrow>
                    if \<not> plot_available ev then
                      Inr (JSONResponse
                             (ErrorBody ''plot_ts or plotly not available. Please install plot.py and plotly.'')
                             500)
                    else render ev mu theme)))"

section \<open>Predicates and inputs of the statements\<close>

text \<open>
  The two ways the parser's conditional expression can go for an \<open>Obs\<close> element: its
  \<open>OBS_VALUE\<close> is absent or empty (the \<open>else None\<close> branch), or it is a text that
  \<open>float\<close> rejects.
\<close>

definition missing_value :: "element \<Rightarrow> bool" where
  "missing_value ob = (elem_get ob ''OBS_VALUE'' = None \<or> elem_get ob ''OBS_VALUE'' = Some [])"

definition unreadable_value :: "element \<Rightarrow> bool" where
  "unreadable_value ob =
     (case elem_get ob ''OBS_VALUE'' of None \<Rightarrow> False | Some v \<Rightarrow> v \<noteq> [] \<and> py_float v = None)"

text \<open>
  Documents, as the trees of their XML text. \<open>doc_missing_values\<close> is
  \<^verbatim>\<open><DataSet><Series BORROWERS_CTY="US"><Obs TIME_PERIOD="2020-Q1"/>\<close>
  \<^verbatim>\<open><Obs TIME_PERIOD="2020-Q2" OBS_VALUE=""/><Obs TIME_PERIOD="2020-Q3" OBS_VALUE="1.5"/>\<close>
  \<^verbatim>\<open></Series></DataSet>\<close>; \<open>doc_not_a_number\<close> and \<open>doc_dash_value\<close> have one
  observation each, with the values \<open>n/a\<close> and \<open>-\<close>; \<open>doc_root_series\<close> is
  \<^verbatim>\<open><Series BORROWERS_CTY="US"><Obs TIME_PERIOD="2020-Q1" OBS_VALUE="1.5"/></Series>\<close>;
  \<open>doc_two_by_two\<close> has two series with two observations each.
\<close>

definition doc_missing_values :: element where
  "doc_missing_values =
     Element ''DataSet'' []
       [Element ''Series'' [(''BORROWERS_CTY'', ''US'')]
          [Element ''Obs'' [(''TIME_PERIOD'', ''2020-Q1'')] [],
           Element ''Obs'' [(''TIME_PERIOD'', ''2020-Q2''), (''OBS_VALUE'', '''')] [],
           Element ''Obs'' [(''TIME_PERIOD'', ''2020-Q3''), (''OBS_VALUE'', ''1.5'')] []]]"

definition doc_not_a_number :: element where
  "doc_not_a_number =
     Element ''DataSet'' []
       [Element ''Series'' [(''BORROWERS_CTY'', ''US'')]
          [Element ''Obs'' [(''TIME_PERIOD'', ''2020-Q1''), (''OBS_VALUE'', ''n/a'')] []]]"

definition doc_root_series :: element where
  "doc_root_series =
     Element ''Series'' [(''BORROWERS_CTY'', ''US'')]
       [Element ''Obs'' [(''TIME_PERIOD'', ''2020-Q1''), (''OBS_VALUE'', ''1.5'')] []]"

definition doc_dash_value :: element where
  "doc_dash_value =
     Element ''DataSet'' []
       [Element ''Series'' [(''BORROWERS_CTY'', ''JP'')]
          [Element ''Obs'' [(''TIME_PERIOD'', ''2020-Q1''), (''OBS_VALUE'', ''-'')] []]]"

definition doc_two_by_two :: element where
  "doc_two_by_two =
     Element ''DataSet'' []
       [Element ''Series'' [(''BORROWERS_CTY'', ''US'')]
          [Element ''Obs'' [(''TIME_PERIOD'', ''2020-Q2''), (''OBS_VALUE'', ''2'')] [],
           Element ''Obs'' [(''TIME_PERIOD'', ''2020-Q1''), (''OBS_VALUE'', ''1'')] []],
        Element ''Series'' [(''BORROWERS_CTY'', ''JP'')]
          [Element ''Obs'' [(''TIME_PERIOD'', ''2020-Q2''), (''OBS_VALUE'', ''2'')] [],
           Element ''Obs'' [(''TIME_PERIOD'', ''2020-Q1'')] []]]"

text \<open>
  Matrices for the renderer: one with the fourteen columns that a key naming fourteen
  countries gives, and two with three columns that differ in everything else.
\<close>

definition fourteen_countries :: matrix where
  "fourteen_countries =
     \<lparr>index = [Some 0],
      columns = [''AU'', ''BR'', ''CA'', ''CH'', ''CN'', ''DE'', ''ES'', ''FR'', ''GB'', ''IN'',
                 ''IT'', ''JP'', ''US'', ''XM''],
      cells = replicate 14 [Fin 1]\<rparr>"

definition three_countries :: matrix where
  "three_countries =
     \<lparr>index = [Some 0, Some 1], columns = [''CN'', ''JP'', ''US''],
      cells = [[Fin 1, Fin 2], [NaN, Fin 3], [Fin 5, Fin 4]]\<rparr>"

definition three_others :: matrix where
  "three_others =
     \<lparr>index = [Some 7], columns = [''DE'', ''FR'', ''IT''], cells = [[NaN], [NaN], [Fin 9]]\<rparr>"

text \<open>
  Frames and matrices for the pandas steps. Timestamps count days from 1970-01-01, so
  \<open>18262\<close>, \<open>18353\<close>, \<open>18444\<close>, \<open>18536\<close> and \<open>18628\<close> are the first days of the four
  quarters of 2020 and of the first quarter of 2021. \<open>gap_rows\<close> is one series whose
  second observation has no value, and \<open>gap_matrix\<close> is its pivot.
\<close>

definition gap_rows :: "tstamp obs list" where
  "gap_rows =
     [\<lparr>Date = Some 18262, Value = Some (Fin 1), Country = ''US''\<rparr>,
      \<lparr>Date = Some 18353, Value = None, Country = ''US''\<rparr>,
      \<lparr>Date = Some 18444, Value = Some (Fin 2), Country = ''US''\<rparr>]"

definition gap_matrix :: matrix where
  "gap_matrix = \<lparr>index = [Some 18262, Some 18353, Some 18444], columns = [''US''],
                  cells = [[Fin 1, NaN, Fin 2]]\<rparr>"

definition four_quarters :: matrix where
  "four_quarters =
     \<lparr>index = [Some 18262, Some 18353, Some 18444, Some 18536], columns = [''JP'', ''US''],
      cells = [[Fin 100, Fin 102, Fin 104, Fin 103], [Fin 7, NaN, Fin 8, Fin 9]]\<rparr>"


text \<open>
  \<open>duplicate_rows\<close> has two rows for the United States in the first quarter of 2020,
  with the values 1 and 2; \<open>two_country_rows\<close> has no pair twice.
\<close>

definition duplicate_rows :: "tstamp obs list" where
  "duplicate_rows =
     [\<lparr>Date = Some 18262, Value = Some (Fin 1), Country = ''US''\<rparr>,
      \<lparr>Date = Some 18353, Value = Some (Fin 3), Country = ''US''\<rparr>,
      \<lparr>Date = Some 18262, Value = Some (Fin 2), Country = ''US''\<rparr>]"

definition two_country_rows :: "tstamp obs list" where
  "two_country_rows =
     [\<lparr>Date = Some 18353, Value = Some (Fin 3), Country = ''US''\<rparr>,
      \<lparr>Date = Some 18262, Value = Some (Fin 1), Country = ''US''\<rparr>,
      \<lparr>Date = Some 18353, Value = None, Country = ''JP''\<rparr>]"

text \<open>
  Surroundings for the endpoints. \<open>quarter_labels\<close> and \<open>iso_dates\<close> read the labels and
  dates that the statements use, as pandas does (the empty label is \<open>NaT\<close>). \<open>flat_fit\<close>
  stands for a \<open>polyfit\<close> that returns and \<open>failing_fit\<close> for one that raises; the
  endpoints draw line charts and never reach either. In \<open>empty_dataset_env\<close> the upstream
  answers 200 with a document without any series; in \<open>unavailable_env\<close> it answers 503;
  in \<open>timeout_env\<close> the request itself raises. \<open>three_quarter_rows\<close> is a frame after
  the conversion of its dates, one of them \<open>NaT\<close>.
\<close>

definition quarter_labels :: "string \<Rightarrow> tstamp option" where
  "quarter_labels l =
     (if l = [] then Some None
      else map_option Some
             (map_of [(''2020-Q1'', 18262), (''2020-Q2'', 18353), (''2020-Q3'', 18444),
                      (''2020-Q4'', 18536), (''2021-Q1'', 18628)] l))"

definition iso_dates :: "string \<Rightarrow> string + tstamp" where
  "iso_dates s =
     (case map_of [(''2020-01-01'', 18262), (''2020-04-01'', 18353), (''2020-07-01'', 18444),
                   (''2020-10-01'', 18536), (''2021-01-01'', 18628)] s of
        None \<Rightarrow> Inl (''Unknown datetime string format, unable to parse: '' @ s)
      | Some t \<Rightarrow> Inr (Some t))"

definition flat_fit :: "pyfloat list \<Rightarrow> pyfloat list \<Rightarrow> py_exn + pyfloat \<times> pyfloat" where
  "flat_fit xs ys = Inr (Fin 0, Fin 0)"

definition failing_fit :: "pyfloat list \<Rightarrow> pyfloat list \<Rightarrow> py_exn + pyfloat \<times> pyfloat" where
  "failing_fit xs ys = Inl (LinAlgError ''SVD did not converge in Linear Least Squares'')"

definition empty_dataset_env :: env where
  "empty_dataset_env =
     \<lparr>requests_get = (\<lambda>url. Replies 200 ''OK'' ''<DataSet/>''),
      fromstring = (\<lambda>t. if t = ''<DataSet/>'' then Some (Element ''DataSet'' [] []) else None),
      period_start = quarter_labels, to_datetime = iso_dates, pct_change_fill = No_fill,
      np_polyfit = flat_fit, plot_available = True\<rparr>"

definition unavailable_env :: env where
  "unavailable_env =
     \<lparr>requests_get = (\<lambda>url. Replies 503 ''Service Unavailable'' []),
      fromstring = (\<lambda>t. None),
      period_start = quarter_labels, to_datetime = iso_dates, pct_change_fill = No_fill,
      np_polyfit = flat_fit, plot_available = True\<rparr>"

definition timeout_env :: env where
  "timeout_env =
     \<lparr>requests_get = (\<lambda>url. Raises ''Read timed out.''),
      fromstring = (\<lambda>t. None),
      period_start = quarter_labels, to_datetime = iso_dates, pct_change_fill = Pad,
      np_polyfit = flat_fit, plot_available = True\<rparr>"

definition three_quarter_rows :: "tstamp obs list" where
  "three_quarter_rows =
     [\<lparr>Date = Some 18444, Value = Some (Fin 3), Country = ''US''\<rparr>,
      \<lparr>Date = Some 18262, Value = Some (Fin 1), Country = ''US''\<rparr>,
      \<lparr>Date = None, Value = Some (Fin 4), Country = ''US''\<rparr>,
      \<lparr>Date = Some 18353, Value = Some (Fin 2), Country = ''US''\<rparr>]"

section \<open>Properties of the parser\<close>

lemma obs_value_Inl:
  "(\<exists>e. obs_value ob = Inl e) \<longleftrightarrow> unreadable_value ob"
  by (auto simp: obs_value_def unreadable_value_def split: option.splits)

lemma obs_record_unreadable:
  "unreadable_value ob \<Longrightarrow> \<exists>msg. obs_record cc ob = Inl (ValueError msg)"
  by (auto simp: obs_record_def obs_value_def unreadable_value_def split: option.splits)

lemma obs_record_readable:
  "\<not> unreadable_value ob \<Longrightarrow> \<exists>r. obs_record cc ob = Inr r"
  by (auto simp: obs_record_def obs_value_def unreadable_value_def split: option.splits)

lemma obs_record_missing:
  "missing_value ob \<Longrightarrow> obs_record cc ob = Inr r \<Longrightarrow> Value r = None"
  by (auto simp: obs_record_def obs_value_def missing_value_def split: option.splits)

lemma obs_record_fields:
  "obs_record cc ob = Inr r \<Longrightarrow> Date r = elem_get ob ''TIME_PERIOD'' \<and> Country r = cc"
  by (auto simp: obs_record_def split: sum.splits)

lemma append_obs_readable:
  "\<forall>ob \<in> set obs. \<not> unreadable_value ob \<Longrightarrow>
   append_obs cc obs data = Inr (data @ map (\<lambda>ob. projr (obs_record cc ob)) obs)"
proof (induction obs arbitrary: data)
  case Nil
  then show ?case by simp
next
  case (Cons ob obs)
  then obtain r where "obs_record cc ob = Inr r"
    using obs_record_readable [of ob cc] by auto
  with Cons show ?case by simp
qed

lemma append_obs_unreadable:
  "\<exists>ob \<in> set obs. unreadable_value ob \<Longrightarrow> \<exists>msg. append_obs cc obs data = Inl (ValueError msg)"
proof (induction obs arbitrary: data)
  case Nil
  then show ?case by simp
next
  case (Cons ob obs)
  show ?case
  proof (cases "unreadable_value ob")
    case True
    then show ?thesis using obs_record_unreadable [of ob cc] by auto
  next
    case False
    then obtain r where "obs_record cc ob = Inr r"
      using obs_record_readable [of ob cc] by auto
    moreover have "\<exists>ob \<in> set obs. unreadable_value ob" using Cons.prems False by auto
    ultimately show ?thesis using Cons.IH by simp
  qed
qed

lemma append_series_readable:
  "\<forall>s \<in> set ss. \<forall>ob \<in> set (findall_children s ''Obs''). \<not> unreadable_value ob \<Longrightarrow>
   append_series ss data =
     Inr (data @ concat (map (\<lambda>s. map (\<lambda>ob. projr (obs_record (country_of s) ob))
                                     (findall_children s ''Obs'')) ss))"
proof (induction ss arbitrary: data)
  case Nil
  then show ?case by simp
next
  case (Cons s ss)
  then show ?case by (simp add: append_obs_readable)
qed

lemma append_series_unreadable:
  "\<exists>s \<in> set ss. \<exists>ob \<in> set (findall_children s ''Obs''). unreadable_value ob \<Longrightarrow>
   \<exists>msg. append_series ss data = Inl (ValueError msg)"
proof (induction ss arbitrary: data)
  case Nil
  then show ?case by simp
next
  case (Cons s ss)
  show ?case
  proof (cases "\<exists>ob \<in> set (findall_children s ''Obs''). unreadable_value ob")
    case True
    then show ?thesis using append_obs_unreadable [of "findall_children s ''Obs''" "country_of s" data] by auto
  next
    case False
    then have "append_obs (country_of s) (findall_children s ''Obs'') data =
       Inr (data @ map (\<lambda>ob. projr (obs_record (country_of s) ob)) (findall_children s ''Obs''))"
      by (simp add: append_obs_readable)
    moreover have "\<exists>s \<in> set ss. \<exists>ob \<in> set (findall_children s ''Obs''). unreadable_value ob"
      using Cons.prems False by auto
    ultimately show ?thesis using Cons.IH by simp
  qed
qed

lemma parse_root_readable:
  "\<forall>ob \<in> set (visited_obs doc). \<not> unreadable_value ob \<Longrightarrow>
   parse_root doc =
     Inr (concat (map (\<lambda>s. map (\<lambda>ob. projr (obs_record (country_of s) ob))
                            (findall_children s ''Obs'')) (findall_descendants doc ''Series'')))"
  using append_series_readable [of "findall_descendants doc ''Series''" "[]"]
  by (auto simp: parse_root_def visited_obs_def)

lemma parse_root_unreadable:
  "\<exists>ob \<in> set (visited_obs doc). unreadable_value ob \<Longrightarrow> \<exists>msg. parse_root doc = Inl (ValueError msg)"
  using append_series_unreadable [of "findall_descendants doc ''Series''" "[]"]
  by (auto simp: parse_root_def visited_obs_def)

lemma nth_concat_uniform:
  "\<forall>xs \<in> set xss. length xs = M \<Longrightarrow> k < length xss \<Longrightarrow> m < M \<Longrightarrow>
   concat xss ! (k * M + m) = xss ! k ! m"
proof (induction xss arbitrary: k)
  case Nil
  then show ?case by simp
next
  case (Cons xs xss)
  show ?case
  proof (cases k)
    case 0
    with Cons.prems show ?thesis by (simp add: nth_append)
  next
    case (Suc k')
    with Cons.prems have "concat xss ! (k' * M + m) = xss ! k' ! m"
      using Cons.IH [of k'] by simp
    with Suc Cons.prems show ?thesis by (simp add: nth_append add.commute add.left_commute)
  qed
qed

lemma length_concat_uniform:
  "\<forall>xs \<in> set xss. length xs = M \<Longrightarrow> length (concat xss) = length xss * M"
  by (induction xss) auto

lemma append_obs_Inr:
  "append_obs cc obs data = Inr out \<Longrightarrow>
   \<exists>new. out = data @ new \<and> list_all2 (\<lambda>ob r. obs_record cc ob = Inr r) obs new"
proof (induction obs arbitrary: data)
  case Nil
  then show ?case by simp
next
  case (Cons ob obs)
  then obtain r where r: "obs_record cc ob = Inr r" and rest: "append_obs cc obs (data @ [r]) = Inr out"
    by (auto split: sum.splits)
  from Cons.IH [OF rest] obtain new where
    "out = (data @ [r]) @ new" "list_all2 (\<lambda>ob r. obs_record cc ob = Inr r) obs new"
    by blast
  with r have "out = data @ (r # new) \<and> list_all2 (\<lambda>ob r. obs_record cc ob = Inr r) (ob # obs) (r # new)"
    by simp
  then show ?case by blast
qed

lemma append_series_Inr:
  "append_series ss data = Inr out \<Longrightarrow>
   \<exists>new. out = data @ new \<and>
     list_all2 (\<lambda>ob r. \<exists>cc. obs_record cc ob = Inr r)
       (concat (map (\<lambda>s. findall_children s ''Obs'') ss)) new"
proof (induction ss arbitrary: data)
  case Nil
  then show ?case by simp
next
  case (Cons s ss)
  then obtain mid where mid: "append_obs (country_of s) (findall_children s ''Obs'') data = Inr mid"
    and rest: "append_series ss mid = Inr out"
    by (auto split: sum.splits)
  from append_obs_Inr [OF mid] obtain new1 where
    n1: "mid = data @ new1"
      "list_all2 (\<lambda>ob r. obs_record (country_of s) ob = Inr r) (findall_children s ''Obs'') new1"
    by blast
  from Cons.IH [OF rest] obtain new2 where
    n2: "out = mid @ new2"
      "list_all2 (\<lambda>ob r. \<exists>cc. obs_record cc ob = Inr r)
         (concat (map (\<lambda>s. findall_children s ''Obs'') ss)) new2"
    by blast
  have "list_all2 (\<lambda>ob r. \<exists>cc. obs_record cc ob = Inr r) (findall_children s ''Obs'') new1"
    using n1(2) by (rule list_all2_mono) blast
  with n2(2) have "list_all2 (\<lambda>ob r. \<exists>cc. obs_record cc ob = Inr r)
      (concat (map (\<lambda>s. findall_children s ''Obs'') (s # ss))) (new1 @ new2)"
    by (simp add: list_all2_appendI)
  moreover have "out = data @ (new1 @ new2)" using n1(1) n2(1) by simp
  ultimately show ?case by blast
qed

lemma parse_root_Inr:
  "parse_root doc = Inr data \<Longrightarrow>
   list_all2 (\<lambda>ob r. \<exists>cc. obs_record cc ob = Inr r) (visited_obs doc) data"
  using append_series_Inr [of "findall_descendants doc ''Series''" "[]" data]
  by (auto simp: parse_root_def visited_obs_def)

lemma parse_root_Inl:
  "parse_root doc = Inl e \<Longrightarrow> \<exists>ob \<in> set (visited_obs doc). unreadable_value ob"
  using parse_root_readable [of doc] by auto

lemma missing_value_readable: "missing_value ob \<Longrightarrow> \<not> unreadable_value ob"
  by (auto simp: missing_value_def unreadable_value_def)

text \<open>
  C2, as the code has it. The parse returns whenever no visited \<open>Obs\<close> has a non-empty
  \<open>OBS_VALUE\<close> that \<open>float\<close> rejects, so an \<open>Obs\<close> whose \<open>OBS_VALUE\<close> is absent or empty
  never makes it fail. It raises exactly when some visited \<open>Obs\<close> has such a value, and
  then with \<open>ValueError\<close> and nothing else. When the parse returns, it has one record per
  visited \<open>Obs\<close>, in order, and the record of an \<open>Obs\<close> whose \<open>OBS_VALUE\<close> is absent or
  empty has the value \<open>None\<close>.
\<close>

theorem parse_missing_value_is_null:
  "((\<forall>ob \<in> set (visited_obs doc). missing_value ob \<or> \<not> unreadable_value ob)
      \<longrightarrow> (\<exists>data. parse_root doc = Inr data))
   \<and> ((\<exists>ob \<in> set (visited_obs doc). unreadable_value ob) \<longleftrightarrow> (\<exists>e. parse_root doc = Inl e))
   \<and> (\<forall>e. parse_root doc = Inl e \<longrightarrow> (\<exists>msg. e = ValueError msg))
   \<and> (\<forall>data. parse_root doc = Inr data \<longrightarrow>
        length data = length (visited_obs doc) \<and>
        (\<forall>j < length data. missing_value (visited_obs doc ! j) \<longrightarrow> Value (data ! j) = None))"
proof (intro conjI allI impI)
  assume "\<forall>ob \<in> set (visited_obs doc). missing_value ob \<or> \<not> unreadable_value ob"
  then have "\<forall>ob \<in> set (visited_obs doc). \<not> unreadable_value ob"
    using missing_value_readable by blast
  then show "\<exists>data. parse_root doc = Inr data"
    using parse_root_readable [of doc] by blast
next
  show "(\<exists>ob \<in> set (visited_obs doc). unreadable_value ob) \<longleftrightarrow> (\<exists>e. parse_root doc = Inl e)"
    using parse_root_unreadable [of doc] parse_root_Inl [of doc] by blast
next
  fix e assume "parse_root doc = Inl e"
  then show "\<exists>msg. e = ValueError msg"
    using parse_root_unreadable [of doc] parse_root_Inl [of doc e] by auto
next
  fix data assume "parse_root doc = Inr data"
  then show "length data = length (visited_obs doc)"
    using parse_root_Inr [of doc data] by (simp add: list_all2_lengthD)
next
  fix data j
  assume p: "parse_root doc = Inr data" and j: "j < length data"
    and m: "missing_value (visited_obs doc ! j)"
  from parse_root_Inr [OF p] j
  obtain cc where "obs_record cc (visited_obs doc ! j) = Inr (data ! j)"
    by (auto simp: list_all2_conv_all_nth)
  with m show "Value (data ! j) = None" by (rule obs_record_missing)
qed

text \<open>
  C2 at a document with an \<open>Obs\<close> without \<open>OBS_VALUE\<close>, one with \<open>OBS_VALUE=""\<close> and one
  with \<open>OBS_VALUE="1.5"\<close>: the parse returns, and the first two values are \<open>None\<close>.
\<close>

theorem parse_missing_value_is_null_witness:
  "missing_value (visited_obs doc_missing_values ! 0) \<and>
   missing_value (visited_obs doc_missing_values ! 1) \<and>
   parse_root doc_missing_values =
     Inr [\<lparr>Date = Some ''2020-Q1'', Value = None, Country = ''US''\<rparr>,
          \<lparr>Date = Some ''2020-Q2'', Value = None, Country = ''US''\<rparr>,
          \<lparr>Date = Some ''2020-Q3'', Value = Some (Fin (3 / 2)), Country = ''US''\<rparr>] \<and>
   Value (projr (parse_root doc_missing_values) ! 0) = None \<and>
   Value (projr (parse_root doc_missing_values) ! 1) = None"
proof -
  let ?data = "[\<lparr>Date = Some ''2020-Q1'', Value = None, Country = ''US''\<rparr>,
          \<lparr>Date = Some ''2020-Q2'', Value = None, Country = ''US''\<rparr>,
          \<lparr>Date = Some ''2020-Q3'', Value = Some (Fin (3 / 2)), Country = ''US''\<rparr>]"
  have ev: "parse_root doc_missing_values = Inr ?data"
    by code_simp
  have m0: "missing_value (visited_obs doc_missing_values ! 0)"
    by code_simp
  have m1: "missing_value (visited_obs doc_missing_values ! 1)"
    by code_simp
  from parse_missing_value_is_null [of doc_missing_values] ev
  have nulls: "\<forall>j < length ?data. missing_value (visited_obs doc_missing_values ! j)
                 \<longrightarrow> Value (?data ! j) = None"
    by blast
  have "Value (?data ! 0) = None" using nulls m0 by simp
  moreover have "Value (?data ! 1) = None" using nulls m1 by (simp del: nth_Cons_Suc)
  ultimately show ?thesis using ev m0 m1 by simp
qed

text \<open>
  C2 as the specification states it fails: \<open>OBS_VALUE="n/a"\<close> is not numeric, and the
  parser does not give a null value for it; \<open>float\<close> raises and no record is returned.
\<close>

theorem parse_non_numeric_value_raises:
  "parse_root doc_not_a_number = Inl (ValueError ''could not convert string to float: n/a'')"
  by code_simp

text \<open>
  C8, as the code has it. Let the root have \<open>K\<close> \<open>Series\<close> elements below it, each with
  \<open>M\<close> \<open>Obs\<close> children, and let no visited \<open>Obs\<close> have a value that \<open>float\<close> rejects. Then
  the parse returns \<open>K * M\<close> records, and the record at position \<open>k * M + m\<close> is the one
  built from the \<open>Obs\<close> number \<open>m\<close> of the \<open>Series\<close> number \<open>k\<close>: document order, nothing
  dropped, nothing moved.
\<close>

theorem parse_count_and_order:
  assumes uniform: "\<forall>s \<in> set (findall_descendants doc ''Series''). length (findall_children s ''Obs'') = M"
      and readable: "\<forall>ob \<in> set (visited_obs doc). \<not> unreadable_value ob"
  shows "\<exists>data. parse_root doc = Inr data \<and>
           length data = length (findall_descendants doc ''Series'') * M \<and>
           (\<forall>k < length (findall_descendants doc ''Series''). \<forall>m < M.
              obs_record (country_of (findall_descendants doc ''Series'' ! k))
                         (findall_children (findall_descendants doc ''Series'' ! k) ''Obs'' ! m)
                = Inr (data ! (k * M + m)))"
proof -
  let ?ss = "findall_descendants doc ''Series''"
  let ?rows = "map (\<lambda>s. map (\<lambda>ob. projr (obs_record (country_of s) ob)) (findall_children s ''Obs'')) ?ss"
  have p: "parse_root doc = Inr (concat ?rows)"
    using parse_root_readable [OF readable] .
  have u: "\<forall>xs \<in> set ?rows. length xs = M" using uniform by auto
  have len: "length (concat ?rows) = length ?ss * M"
    using length_concat_uniform [OF u] by simp
  have nth: "obs_record (country_of (?ss ! k)) (findall_children (?ss ! k) ''Obs'' ! m)
               = Inr (concat ?rows ! (k * M + m))" if k: "k < length ?ss" and m: "m < M" for k m
  proof -
    let ?s = "?ss ! k"
    let ?ob = "findall_children ?s ''Obs'' ! m"
    have s: "?s \<in> set ?ss" using k by simp
    then have lm: "length (findall_children ?s ''Obs'') = M" using uniform by blast
    then have "?ob \<in> set (findall_children ?s ''Obs'')" using m by simp
    then have "?ob \<in> set (visited_obs doc)" using s by (auto simp: visited_obs_def)
    then obtain r where r: "obs_record (country_of ?s) ?ob = Inr r"
      using readable obs_record_readable by blast
    have "concat ?rows ! (k * M + m) = ?rows ! k ! m"
      using nth_concat_uniform [OF u _ m, of k] k by simp
    also have "\<dots> = projr (obs_record (country_of ?s) ?ob)" using k m lm by simp
    finally show ?thesis using r by simp
  qed
  show ?thesis using p len nth by blast
qed

text \<open>
  C8 at a document of two series with two observations each, whose periods are not in
  ascending order and whose values repeat: four records, in the order of the document.
\<close>

theorem parse_count_and_order_witness:
  "map (\<lambda>s. length (findall_children s ''Obs'')) (findall_descendants doc_two_by_two ''Series'') = [2, 2]
   \<and> map unreadable_value (visited_obs doc_two_by_two) = [False, False, False, False]
   \<and> length (projr (parse_root doc_two_by_two)) = 2 * 2
   \<and> map Date (projr (parse_root doc_two_by_two))
       = [Some ''2020-Q2'', Some ''2020-Q1'', Some ''2020-Q2'', Some ''2020-Q1'']
   \<and> map Country (projr (parse_root doc_two_by_two)) = [''US'', ''US'', ''JP'', ''JP'']"
proof -
  have len: "map (\<lambda>s. length (findall_children s ''Obs'')) (findall_descendants doc_two_by_two ''Series'') = [2, 2]"
    by code_simp
  have rd: "map unreadable_value (visited_obs doc_two_by_two) = [False, False, False, False]"
    by code_simp
  have h1: "\<forall>s \<in> set (findall_descendants doc_two_by_two ''Series''). length (findall_children s ''Obs'') = 2"
  proof -
    have "\<forall>n \<in> set (map (\<lambda>s. length (findall_children s ''Obs'')) (findall_descendants doc_two_by_two ''Series'')). n = 2"
      unfolding len by simp
    then show ?thesis by simp
  qed
  have h2: "\<forall>ob \<in> set (visited_obs doc_two_by_two). \<not> unreadable_value ob"
  proof -
    have "\<forall>b \<in> set (map unreadable_value (visited_obs doc_two_by_two)). \<not> b"
      unfolding rd by simp
    then show ?thesis by simp
  qed
  have n: "length (findall_descendants doc_two_by_two ''Series'') = 2"
    using arg_cong [OF len, of length] by simp
  from parse_count_and_order [OF h1 h2] obtain data where
    d: "parse_root doc_two_by_two = Inr data"
       "length data = length (findall_descendants doc_two_by_two ''Series'') * 2"
    by blast
  have ev: "parse_root doc_two_by_two =
     Inr [\<lparr>Date = Some ''2020-Q2'', Value = Some (Fin 2), Country = ''US''\<rparr>,
      \<lparr>Date = Some ''2020-Q1'', Value = Some (Fin 1), Country = ''US''\<rparr>,
      \<lparr>Date = Some ''2020-Q2'', Value = Some (Fin 2), Country = ''JP''\<rparr>,
      \<lparr>Date = Some ''2020-Q1'', Value = None, Country = ''JP''\<rparr>]" by code_simp
  have "length (projr (parse_root doc_two_by_two)) = 2 * 2" using d n by simp
  moreover have "map Date (projr (parse_root doc_two_by_two))
       = [Some ''2020-Q2'', Some ''2020-Q1'', Some ''2020-Q2'', Some ''2020-Q1'']"
    unfolding ev by simp
  moreover have "map Country (projr (parse_root doc_two_by_two)) = [''US'', ''US'', ''JP'', ''JP'']"
    unfolding ev by simp
  ultimately show ?thesis using len rd by simp
qed

text \<open>
  C8 as the specification states it fails at two documents. A document whose root is the
  \<open>Series\<close> element has one series with one observation, and the parser returns no
  record, because \<open>findall('.//Series')\<close> does not look at the root. A document with one
  series and one observation whose value is \<open>-\<close> gives no record either: the parse raises.
\<close>

theorem parse_count_counterexample:
  "parse_root doc_root_series = Inr [] \<and>
   parse_root doc_dash_value = Inl (ValueError ''could not convert string to float: -'')"
  by code_simp

section \<open>Properties of the renderer\<close>

text \<open>
  The colours of the column traces, for every input: they are read off the palette of
  the column count, and the bar and line charts raise when the count exceeds the palette.
\<close>

lemma add_indexed_traces_colors:
  assumes "\<And>nm c. column_color (mk nm c) = [c]"
  shows "map_sum id (\<lambda>ts. concat (map column_color ts)) (add_indexed_traces mk colors names js fig) =
     (if \<forall>i \<in> set js. i < length colors
      then Inr (concat (map column_color fig) @ map (\<lambda>i. colors ! i) js)
      else Inl (IndexError ''list index out of range''))"
  using assms
  by (induction js arbitrary: fig) (auto simp: colors_at_def)

lemma add_violin_traces_colors:
  "concat (map column_color (add_violin_traces colors names cols js fig)) =
     concat (map column_color fig) @ map (\<lambda>i. colors ! (i mod length colors)) js"
  by (induction js arbitrary: fig) (auto simp: Let_def)

lemma regression_traces_colors:
  "regression_traces polyfit df = Inr ts \<Longrightarrow> concat (map column_color ts) = []"
  by (auto simp: regression_traces_def Let_def split: if_splits sum.splits)

lemma column_colors_plot_ts:
  "chart \<noteq> ''regression'' \<Longrightarrow>
   column_colors (plot_ts polyfit df nome units chart theme) =
     (let n = length (columns df); colors = select_colors n in
      if chart = ''distribution'' then Inr (map (\<lambda>i. colors ! (i mod length colors)) [0..<n])
      else if n \<le> length colors then Inr (map (\<lambda>i. colors ! i) [0..<n])
      else Inl (IndexError ''list index out of range''))"
proof -
  assume nr: "chart \<noteq> ''regression''"
  have all: "(\<forall>i \<in> set [0..<n]. i < m) \<longleftrightarrow> n \<le> m" for n m :: nat
    by (auto simp: not_le)
  have b: "map_sum id (\<lambda>ts. concat (map column_color ts)) (add_indexed_traces Bar colors names [0..<n] []) =
     (if n \<le> length colors
      then Inr (map (\<lambda>i. colors ! i) [0..<n])
      else Inl (IndexError ''list index out of range''))" for colors names n
    using add_indexed_traces_colors [of Bar colors names "[0..<n]" "[]"] all [of n "length colors"] by simp
  have s: "map_sum id (\<lambda>ts. concat (map column_color ts)) (add_indexed_traces (Scatter None) colors names [0..<n] []) =
     (if n \<le> length colors
      then Inr (map (\<lambda>i. colors ! i) [0..<n])
      else Inl (IndexError ''list index out of range''))" for colors names n
    using add_indexed_traces_colors [of "Scatter None" colors names "[0..<n]" "[]"] all [of n "length colors"] by simp
  have c: "column_colors (case d of Inl e \<Rightarrow> Inl e | Inr ts \<Rightarrow> Inr \<lparr>traces = ts, yaxis_title = u, font_color = t\<rparr>)
      = map_sum id (\<lambda>ts. concat (map column_color ts)) d" for d u t
    by (cases d) (simp_all add: column_colors_def)
  show ?thesis
    unfolding plot_ts_def Let_def c
    using nr by (simp add: b s add_violin_traces_colors)
qed

lemma column_colors_regression:
  "plot_ts polyfit df nome units ''regression'' theme = Inr fig \<Longrightarrow> column_colors (Inr fig) = Inr []"
proof -
  assume "plot_ts polyfit df nome units ''regression'' theme = Inr fig"
  then obtain ts where t: "regression_traces polyfit df = Inr ts" and f: "traces fig = ts"
    by (auto simp: plot_ts_def Let_def split: sum.splits)
  from regression_traces_colors [OF t] f show ?thesis
    by (simp add: column_colors_def)
qed

text \<open>
  C10. Take two calls of \<open>plot_ts\<close> with the same chart kind on matrices with the same
  number of columns, whatever the data, the labels, the title, the units and the theme
  are. For every chart kind but the regression they give every column the same colour
  (or raise the same \<open>IndexError\<close>); for every chart kind, the regression included,
  whenever both return a figure the colours of the columns are the same. So the colour
  of a column depends on its index and on the number of columns only. With three columns
  and any chart that colours columns, the colours are the first three of the palette, so
  column 0 is always \<open>#f1c40f\<close>.
\<close>

theorem column_colors_depend_on_count_only:
  "(length (columns df1) = length (columns df2) \<and> chart \<noteq> ''regression'' \<longrightarrow>
      column_colors (plot_ts polyfit1 df1 nome1 units1 chart theme1) =
      column_colors (plot_ts polyfit2 df2 nome2 units2 chart theme2))
   \<and> (length (columns df1) = length (columns df2)
        \<and> plot_ts polyfit1 df1 nome1 units1 chart theme1 = Inr fig1
        \<and> plot_ts polyfit2 df2 nome2 units2 chart theme2 = Inr fig2 \<longrightarrow>
      column_colors (Inr fig1) = column_colors (Inr fig2))
   \<and> (length (columns df) = 3 \<and> chart \<noteq> ''regression'' \<longrightarrow>
      column_colors (plot_ts polyfit df nome units chart theme)
        = Inr [''#f1c40f'', ''#2ecc71'', ''#9b59b6''])"
proof (intro conjI impI)
  assume "length (columns df1) = length (columns df2) \<and> chart \<noteq> ''regression''"
  then show "column_colors (plot_ts polyfit1 df1 nome1 units1 chart theme1) =
      column_colors (plot_ts polyfit2 df2 nome2 units2 chart theme2)"
    by (simp add: column_colors_plot_ts)
next
  assume a: "length (columns df1) = length (columns df2)
        \<and> plot_ts polyfit1 df1 nome1 units1 chart theme1 = Inr fig1
        \<and> plot_ts polyfit2 df2 nome2 units2 chart theme2 = Inr fig2"
  show "column_colors (Inr fig1) = column_colors (Inr fig2)"
  proof (cases "chart = ''regression''")
    case True
    with a have "column_colors (Inr fig1) = Inr []" "column_colors (Inr fig2) = Inr []"
      using column_colors_regression by blast+
    then show ?thesis by simp
  next
    case False
    with a have "column_colors (plot_ts polyfit1 df1 nome1 units1 chart theme1) =
      column_colors (plot_ts polyfit2 df2 nome2 units2 chart theme2)"
      using column_colors_plot_ts [of chart polyfit1 df1 nome1 units1 theme1]
        column_colors_plot_ts [of chart polyfit2 df2 nome2 units2 theme2]
      by simp
    with a show ?thesis by simp
  qed
next
  assume a: "length (columns df) = 3 \<and> chart \<noteq> ''regression''"
  have u: "[0..<3] = [0, 1, 2]" by (simp add: upt_rec)
  from a show "column_colors (plot_ts polyfit df nome units chart theme)
      = Inr [''#f1c40f'', ''#2ecc71'', ''#9b59b6'']"
    by (simp add: column_colors_plot_ts select_colors_def u Let_def)
qed

text \<open>
  C10 at two three-column matrices with different data, titles, units and themes, drawn
  as line charts; the second call is given a \<open>polyfit\<close> that raises, which a line chart
  does not call.
\<close>

theorem column_colors_depend_on_count_only_witness:
  "length (columns three_countries) = length (columns three_others) \<and>
   column_colors (plot_ts flat_fit three_countries ''BIS Data'' ''USD bn'' ''line'' ''light'') =
   column_colors (plot_ts failing_fit three_others ''Credit'' ''QoQ % change'' ''line'' ''dark'') \<and>
   column_colors (plot_ts flat_fit three_countries ''BIS Data'' ''USD bn'' ''line'' ''light'') =
     Inr [''#f1c40f'', ''#2ecc71'', ''#9b59b6'']"
proof -
  have l: "length (columns three_countries) = length (columns three_others) \<and> ''line'' \<noteq> ''regression''"
    by (simp add: three_countries_def three_others_def)
  have l3: "length (columns three_countries) = 3 \<and> ''line'' \<noteq> ''regression''"
    by (simp add: three_countries_def)
  show ?thesis
    using l l3
      column_colors_depend_on_count_only [of three_countries three_others "''line''"
         flat_fit "''BIS Data''" "''USD bn''" "''light''"
         failing_fit "''Credit''" "''QoQ % change''" "''dark''" _ _ three_countries
         flat_fit "''BIS Data''" "''USD bn''" "''light''"]
    by blast
qed

text \<open>
  C9 fails on the code. With fourteen columns the palette is the thirteen-colour list of
  the \<open>else\<close> branch; the line chart, which \<open>bis_credit_chart\<close> asks for, reads
  \<open>colors[13]\<close> and raises \<open>IndexError\<close>, while the distribution chart of the same
  function wraps around with \<open>colors[i % len(colors)]\<close> and colours all fourteen columns.
\<close>

theorem fourteen_columns_line_chart_raises:
  "plot_ts polyfit fourteen_countries ''BIS Data'' ''USD bn'' ''line'' ''light''
     = Inl (IndexError ''list index out of range'')
   \<and> column_colors (plot_ts polyfit fourteen_countries ''BIS Data'' ''USD bn'' ''distribution'' ''light'')
     = Inr [''#f1c40f'', ''#2ecc71'', ''#9b59b6'', ''#e74c3c'', ''#bababa'', ''#0f3cf1'',
                ''#cc2e89'', ''#b69b59'', ''#5974b6'', ''#3cd7e7'', ''#7d2eff'', ''#adf10f'',
                ''#abecc7'', ''#f1c40f'']"
  by code_simp

section \<open>Properties of the percent-change transform\<close>

lemma fdiv_NaN_right: "fdiv x NaN = NaN"
  by (simp add: fdiv_def)

lemma fsub_NaN_left: "fsub NaN y = NaN"
  by (simp add: fsub_def)

lemma length_pad_from: "length (pad_from p xs) = length xs"
  by (induction xs arbitrary: p) auto

lemma length_pad: "length (pad xs) = length xs"
  by (simp add: pad_def length_pad_from)



lemma length_shift: "length (shift n col) = length col"
  by (simp add: shift_def)

lemma shift_nth:
  "i < length col \<Longrightarrow> shift n col ! i = (if i < n then NaN else col ! (i - n))"
  by (simp add: shift_def nth_append)

lemma length_pct_change_column: "length (pct_change_column fill n col) = length col"
  by (cases fill) (simp_all add: pct_change_column_def Let_def length_shift length_pad)

lemma pct_change_column_nth:
  assumes "i < length col"
  shows "pct_change_column fill n col ! i =
     (let data = (case fill of Pad \<Rightarrow> pad col | No_fill \<Rightarrow> col)
      in if i < n then NaN else fsub (fdiv (data ! i) (data ! (i - n))) (Fin 1))"
proof -
  let ?data = "case fill of Pad \<Rightarrow> pad col | No_fill \<Rightarrow> col"
  have l: "length ?data = length col" by (cases fill) (simp_all add: length_pad)
  then have i: "i < length ?data" using assms by simp
  have "pct_change_column fill n col ! i = fsub (fdiv (?data ! i) (shift n ?data ! i)) (Fin 1)"
    using i by (simp add: pct_change_column_def Let_def length_shift)
  also have "shift n ?data ! i = (if i < n then NaN else ?data ! (i - n))"
    using i by (rule shift_nth)
  finally show ?thesis by (simp add: Let_def fdiv_NaN_right fsub_NaN_left)
qed


lemma cells_apply_mode_yoy:
  "cells (fst (apply_mode fill ''yoy'' units df)) = map (pct_change_column fill 4) (cells df)"
  by (simp add: apply_mode_def pct_change_def)

text \<open>
  Under the forward fill of the older pandas releases, the ratio is taken on the filled
  column: for \<open>1, NaN, 2\<close> the rows are \<open>NaN, 0, 1\<close>.
\<close>

lemma pct_change_pad_on_filled_column:
  "1 \<le> i \<Longrightarrow> i < length col \<Longrightarrow>
   pct_change_column Pad 1 col ! i = fsub (fdiv (pad col ! i) (pad col ! (i - 1))) (Fin 1)"
  by (simp add: pct_change_column_nth Let_def)

lemma pct_change_pad_gap:
  "pct_change_column Pad 1 [Fin 1, NaN, Fin 2] = [NaN, Fin 0, Fin 1]"
  by code_simp



text \<open>
  C4. For a matrix with fewer than five rows (every column as long as the index), mode
  \<open>yoy\<close> leaves the row and column labels and the number of columns as they are, and
  every cell of every column is \<open>NaN\<close>, whether \<open>pct_change\<close> fills or not.
\<close>

theorem yoy_short_matrix_all_null:
  assumes rows: "length (index df) < 5"
      and wf: "\<forall>col \<in> set (cells df). length col = length (index df)"
  shows "index (fst (apply_mode fill ''yoy'' units df)) = index df
    \<and> columns (fst (apply_mode fill ''yoy'' units df)) = columns df
    \<and> length (cells (fst (apply_mode fill ''yoy'' units df))) = length (cells df)
    \<and> (\<forall>j < length (cells df).
          length (cells (fst (apply_mode fill ''yoy'' units df)) ! j) = length (index df)
          \<and> (\<forall>i < length (index df). cells (fst (apply_mode fill ''yoy'' units df)) ! j ! i = NaN))"
proof -
  have shape: "index (fst (apply_mode fill ''yoy'' units df)) = index df
    \<and> columns (fst (apply_mode fill ''yoy'' units df)) = columns df
    \<and> length (cells (fst (apply_mode fill ''yoy'' units df))) = length (cells df)"
    by (simp add: apply_mode_def pct_change_def)
  have col: "length (cells (fst (apply_mode fill ''yoy'' units df)) ! j) = length (index df)
          \<and> (\<forall>i < length (index df). cells (fst (apply_mode fill ''yoy'' units df)) ! j ! i = NaN)"
    if j: "j < length (cells df)" for j
  proof -
    let ?col = "cells df ! j"
    have l: "length ?col = length (index df)" using wf j by simp
    have r: "cells (fst (apply_mode fill ''yoy'' units df)) ! j = pct_change_column fill 4 ?col"
      using j by (simp add: cells_apply_mode_yoy)
    have "pct_change_column fill 4 ?col ! i = NaN" if "i < length (index df)" for i
      using that rows l by (simp add: pct_change_column_nth)
    then show ?thesis unfolding r by (simp add: length_pct_change_column l)
  qed
  show ?thesis using shape col by blast
qed

text \<open>
  C4 at a matrix with four rows and two columns, one of them with a gap, with and
  without the forward fill.
\<close>

theorem yoy_short_matrix_all_null_witness:
  "length (index four_quarters) < 5
   \<and> map length (cells four_quarters) = [4, 4]
   \<and> fst (apply_mode Pad ''yoy'' ''USD bn'' four_quarters)
       = \<lparr>index = [Some 18262, Some 18353, Some 18444, Some 18536], columns = [''JP'', ''US''],
          cells = [[NaN, NaN, NaN, NaN], [NaN, NaN, NaN, NaN]]\<rparr>
   \<and> fst (apply_mode No_fill ''yoy'' ''USD bn'' four_quarters)
       = \<lparr>index = [Some 18262, Some 18353, Some 18444, Some 18536], columns = [''JP'', ''US''],
          cells = [[NaN, NaN, NaN, NaN], [NaN, NaN, NaN, NaN]]\<rparr>"
proof -
  have h1: "length (index four_quarters) < 5" by (simp add: four_quarters_def)
  have h2: "\<forall>col \<in> set (cells four_quarters). length col = length (index four_quarters)"
    by (simp add: four_quarters_def)
  have l: "map length (cells four_quarters) = [4, 4]" by (simp add: four_quarters_def)
  have ev: "fst (apply_mode Pad ''yoy'' ''USD bn'' four_quarters)
       = \<lparr>index = [Some 18262, Some 18353, Some 18444, Some 18536], columns = [''JP'', ''US''],
          cells = [[NaN, NaN, NaN, NaN], [NaN, NaN, NaN, NaN]]\<rparr>"
    by code_simp
  have ev2: "fst (apply_mode No_fill ''yoy'' ''USD bn'' four_quarters)
       = \<lparr>index = [Some 18262, Some 18353, Some 18444, Some 18536], columns = [''JP'', ''US''],
          cells = [[NaN, NaN, NaN, NaN], [NaN, NaN, NaN, NaN]]\<rparr>"
    by code_simp
  show ?thesis
    using h1 l ev ev2 yoy_short_matrix_all_null [OF h1 h2, of Pad "''USD bn''"] by simp
qed

section \<open>Properties of the pivot\<close>

lemma set_sort_index: "set (sort_index ds) = set ds"
proof -
  have "Some ` set (concat (map (\<lambda>d. case d of None \<Rightarrow> [] | Some t \<Rightarrow> [t]) ds)) = {d \<in> set ds. d \<noteq> None}"
    by (auto split: option.splits simp: image_iff)
  then show ?thesis by (auto simp: sort_index_def)
qed

lemma distinct_somes:
  "distinct ds \<Longrightarrow> distinct (concat (map (\<lambda>d. case d of None \<Rightarrow> [] | Some t \<Rightarrow> [t]) ds))"
  by (induction ds) (auto split: option.splits)

lemma distinct_sort_index: "distinct ds \<Longrightarrow> distinct (sort_index ds)"
  by (auto simp: sort_index_def distinct_map distinct_somes)

lemma find_unique_key:
  "distinct (map (\<lambda>r. (Date r, Country r)) df) \<Longrightarrow> r \<in> set df \<Longrightarrow>
   find (\<lambda>x. Date x = Date r \<and> Country x = Country r) df = Some r"
proof (induction df)
  case Nil
  then show ?case by simp
next
  case (Cons x df)
  then show ?case by (auto simp: image_iff)
qed

lemma pivot_cell_row:
  "distinct (map (\<lambda>r. (Date r, Country r)) df) \<Longrightarrow> r \<in> set df \<Longrightarrow>
   pivot_cell df (Date r) (Country r) = cell_of (Value r)"
  by (simp add: pivot_cell_def find_unique_key)

lemma pivot_gap_rows: "pivot gap_rows = Inr gap_matrix"
  by code_simp

lemma duplicate_pair_not_distinct:
  assumes "i < j" "j < length df" "Date (df ! i) = Date (df ! j)" "Country (df ! i) = Country (df ! j)"
  shows "\<not> distinct (map (\<lambda>r. (Date r, Country r)) df)"
proof
  assume d: "distinct (map (\<lambda>r. (Date r, Country r)) df)"
  have "map (\<lambda>r. (Date r, Country r)) df ! i = map (\<lambda>r. (Date r, Country r)) df ! j"
    using assms by simp
  moreover have "i < length (map (\<lambda>r. (Date r, Country r)) df)" "j < length (map (\<lambda>r. (Date r, Country r)) df)"
    using assms by simp_all
  ultimately have "i = j" using d nth_eq_iff_index_eq by blast
  with assms show False by simp
qed

text \<open>
  C1, as the code has it. When two rows of the frame have the same date and country,
  \<open>pivot\<close> raises \<open>ValueError\<close>: no value is kept, the last one included. When \<open>pivot\<close>
  returns a matrix, no pair occurred twice, the row labels are the distinct dates, the
  column labels the distinct countries in sorted order, and the value of every row of
  the frame stands in the cell of its date and country.
\<close>

theorem pivot_raises_on_duplicate_pair:
  "(i < j \<and> j < length df \<and> Date (df ! i) = Date (df ! j) \<and> Country (df ! i) = Country (df ! j)
      \<longrightarrow> pivot df = Inl (ValueError ''Index contains duplicate entries, cannot reshape''))
   \<and> (pivot df = Inr m \<longrightarrow>
        distinct (map (\<lambda>r. (Date r, Country r)) df)
        \<and> distinct (index m) \<and> distinct (columns m) \<and> sorted (columns m)
        \<and> set (index m) = Date ` set df \<and> set (columns m) = Country ` set df
        \<and> (\<forall>r \<in> set df. \<exists>a b. a < length (index m) \<and> b < length (columns m)
              \<and> index m ! a = Date r \<and> columns m ! b = Country r
              \<and> cells m ! b ! a = cell_of (Value r)))"
proof (intro conjI impI)
  assume "i < j \<and> j < length df \<and> Date (df ! i) = Date (df ! j) \<and> Country (df ! i) = Country (df ! j)"
  then have "\<not> distinct (map (\<lambda>r. (Date r, Country r)) df)"
    using duplicate_pair_not_distinct [of i j df] by blast
  then show "pivot df = Inl (ValueError ''Index contains duplicate entries, cannot reshape'')"
    by (simp add: pivot_def)
next
  assume p: "pivot df = Inr m"
  let ?idx = "sort_index (remdups (map Date df))"
  let ?cols = "sort (remdups (map Country df))"
  from p have d: "distinct (map (\<lambda>r. (Date r, Country r)) df)"
    by (auto simp: pivot_def split: if_splits)
  from p d have m: "m = \<lparr>index = ?idx, columns = ?cols,
                 cells = map (\<lambda>c. map (\<lambda>d. pivot_cell df d c) ?idx) ?cols\<rparr>"
    by (simp add: pivot_def Let_def)
  show "distinct (map (\<lambda>r. (Date r, Country r)) df)" by (rule d)
  show "distinct (index m)" by (simp add: m distinct_sort_index)
  show "distinct (columns m)" by (simp add: m)
  show "sorted (columns m)" by (simp add: m)
  show si: "set (index m) = Date ` set df" by (simp add: m set_sort_index)
  show sc: "set (columns m) = Country ` set df" by (simp add: m)
  show "\<forall>r \<in> set df. \<exists>a b. a < length (index m) \<and> b < length (columns m)
              \<and> index m ! a = Date r \<and> columns m ! b = Country r
              \<and> cells m ! b ! a = cell_of (Value r)"
  proof
    fix r assume r: "r \<in> set df"
    then have "Date r \<in> set (index m)" "Country r \<in> set (columns m)"
      using si sc by auto
    then obtain a b where a: "a < length (index m)" "index m ! a = Date r"
      and b: "b < length (columns m)" "columns m ! b = Country r"
      by (auto simp: in_set_conv_nth)
    have "cells m ! b ! a = pivot_cell df (index m ! a) (columns m ! b)"
      using a(1) b(1) by (simp add: m)
    also have "\<dots> = cell_of (Value r)"
      using a(2) b(2) pivot_cell_row [OF d r] by simp
    finally show "\<exists>a b. a < length (index m) \<and> b < length (columns m)
              \<and> index m ! a = Date r \<and> columns m ! b = Country r
              \<and> cells m ! b ! a = cell_of (Value r)"
      using a b by blast
  qed
qed

text \<open>
  C1 at \<open>duplicate_rows\<close>, whose rows 0 and 2 share date and country, and at
  \<open>two_country_rows\<close>, whose pivot exists.
\<close>

theorem pivot_raises_on_duplicate_pair_witness:
  "(0::nat) < 2 \<and> 2 < length duplicate_rows
   \<and> Date (duplicate_rows ! 0) = Date (duplicate_rows ! 2)
   \<and> Country (duplicate_rows ! 0) = Country (duplicate_rows ! 2)
   \<and> pivot duplicate_rows = Inl (ValueError ''Index contains duplicate entries, cannot reshape'')
   \<and> pivot two_country_rows =
        Inr \<lparr>index = [Some 18262, Some 18353], columns = [''JP'', ''US''],
             cells = [[NaN, NaN], [Fin 1, Fin 3]]\<rparr>
   \<and> distinct (map (\<lambda>r. (Date r, Country r)) two_country_rows)"
proof -
  have h: "(0::nat) < 2 \<and> 2 < length duplicate_rows
   \<and> Date (duplicate_rows ! 0) = Date (duplicate_rows ! 2)
   \<and> Country (duplicate_rows ! 0) = Country (duplicate_rows ! 2)"
    by (simp add: duplicate_rows_def)
  have ev: "pivot two_country_rows =
        Inr \<lparr>index = [Some 18262, Some 18353], columns = [''JP'', ''US''],
             cells = [[NaN, NaN], [Fin 1, Fin 3]]\<rparr>"
    by code_simp
  have 1: "pivot duplicate_rows = Inl (ValueError ''Index contains duplicate entries, cannot reshape'')"
    using h pivot_raises_on_duplicate_pair [of 0 2 duplicate_rows] by blast
  have 2: "distinct (map (\<lambda>r. (Date r, Country r)) two_country_rows)"
    using ev pivot_raises_on_duplicate_pair [of 0 0 two_country_rows] by blast
  show ?thesis using h ev 1 2 by simp
qed

text \<open>
  C1 as the specification states it fails: for \<open>duplicate_rows\<close> the construction of the
  matrix does not succeed with the last value 2 in the cell, it raises.
\<close>

theorem pivot_last_wins_counterexample:
  "Date (duplicate_rows ! 0) = Date (duplicate_rows ! 2)
   \<and> Country (duplicate_rows ! 0) = Country (duplicate_rows ! 2)
   \<and> pivot duplicate_rows = Inl (ValueError ''Index contains duplicate entries, cannot reshape'')"
  by code_simp

section \<open>Properties of the chart endpoint\<close>

lemma ts_ge_Some: "ts_ge d (Some start) \<longleftrightarrow> (\<exists>t. d = Some t \<and> start \<le> t)"
  by (cases d) (simp_all add: ts_ge_def)

lemma filter_startdate_parsed:
  "s \<noteq> [] \<Longrightarrow> to_dt s = Inr (Some start) \<Longrightarrow>
   filter_startdate to_dt (Some s) df = Inr (filter (\<lambda>r. \<exists>t. Date r = Some t \<and> start \<le> t) df)"
  by (simp add: filter_startdate_def ts_ge_Some)

text \<open>
  C7. For a start date that is not empty and that pandas reads as the instant \<open>start\<close>,
  the filter returns the rows of the frame whose date is \<open>start\<close> or later, in their
  order: a row dated exactly \<open>start\<close> is kept, every row dated \<open>start\<close> or later is
  kept, and every row with an earlier date is removed. For a non-empty observation set
  whose labels pandas reads, these rows are the ones the endpoint pivots.
\<close>

theorem startdate_filter_is_inclusive:
  assumes "s \<noteq> []" and "to_datetime ev s = Inr (Some start)"
  shows "\<exists>kept. filter_startdate (to_datetime ev) (Some s) df = Inr kept
      \<and> kept = filter (\<lambda>r. \<exists>t. Date r = Some t \<and> start \<le> t) df
      \<and> (\<forall>r \<in> set df. Date r = Some start \<longrightarrow> r \<in> set kept)
      \<and> (\<forall>r \<in> set df. \<forall>t. Date r = Some t \<and> start \<le> t \<longrightarrow> r \<in> set kept)
      \<and> (\<forall>r \<in> set df. \<forall>t. Date r = Some t \<and> t < start \<longrightarrow> r \<notin> set kept)
      \<and> (rows \<noteq> [] \<and> to_timestamp (period_start ev) rows = Inr df \<longrightarrow>
           chart_frame ev units (Some s) mode rows =
             (case pivot (filter (\<lambda>r. \<exists>t. Date r = Some t \<and> start \<le> t) (sort_values df)) of
                Inl e \<Rightarrow> Inl (Inl e)
              | Inr df_pivot \<Rightarrow> Inr (apply_mode (pct_change_fill ev) mode units df_pivot)))"
proof -
  let ?kept = "filter (\<lambda>r. \<exists>t. Date r = Some t \<and> start \<le> t) df"
  have f: "filter_startdate (to_datetime ev) (Some s) d = Inr (filter (\<lambda>r. \<exists>t. Date r = Some t \<and> start \<le> t) d)" for d
    using assms by (rule filter_startdate_parsed)
  have c: "rows \<noteq> [] \<and> to_timestamp (period_start ev) rows = Inr df \<longrightarrow>
           chart_frame ev units (Some s) mode rows =
             (case pivot (filter (\<lambda>r. \<exists>t. Date r = Some t \<and> start \<le> t) (sort_values df)) of
                Inl e \<Rightarrow> Inl (Inl e)
              | Inr df_pivot \<Rightarrow> Inr (apply_mode (pct_change_fill ev) mode units df_pivot))"
    by (simp add: chart_frame_def f)
  have "(\<forall>r \<in> set df. Date r = Some start \<longrightarrow> r \<in> set ?kept)
      \<and> (\<forall>r \<in> set df. \<forall>t. Date r = Some t \<and> start \<le> t \<longrightarrow> r \<in> set ?kept)
      \<and> (\<forall>r \<in> set df. \<forall>t. Date r = Some t \<and> t < start \<longrightarrow> r \<notin> set ?kept)"
    by auto
  with f [of df] c show ?thesis by blast
qed

text \<open>
  C7 at four rows and the start date 2020-04-01: the rows of the second and the third
  quarter remain, the one dated 2020-04-01 among them.
\<close>

theorem startdate_filter_is_inclusive_witness:
  "''2020-04-01'' \<noteq> [] \<and> to_datetime empty_dataset_env ''2020-04-01'' = Inr (Some 18353)
   \<and> filter_startdate (to_datetime empty_dataset_env) (Some ''2020-04-01'') (sort_values three_quarter_rows)
       = Inr [\<lparr>Date = Some 18353, Value = Some (Fin 2), Country = ''US''\<rparr>,
              \<lparr>Date = Some 18444, Value = Some (Fin 3), Country = ''US''\<rparr>]"
proof -
  have h1: "''2020-04-01'' \<noteq> []" by simp
  have h2: "to_datetime empty_dataset_env ''2020-04-01'' = Inr (Some 18353)"
    by code_simp
  have s: "sort_values three_quarter_rows =
      [\<lparr>Date = Some 18262, Value = Some (Fin 1), Country = ''US''\<rparr>,
       \<lparr>Date = Some 18353, Value = Some (Fin 2), Country = ''US''\<rparr>,
       \<lparr>Date = Some 18444, Value = Some (Fin 3), Country = ''US''\<rparr>,
       \<lparr>Date = None, Value = Some (Fin 4), Country = ''US''\<rparr>]"
    by code_simp
  from startdate_filter_is_inclusive [OF h1 h2, of "sort_values three_quarter_rows"]
  have "filter_startdate (to_datetime empty_dataset_env) (Some ''2020-04-01'') (sort_values three_quarter_rows)
      = Inr (filter (\<lambda>r. \<exists>t. Date r = Some t \<and> 18353 \<le> t) (sort_values three_quarter_rows))"
    by blast
  then have "filter_startdate (to_datetime empty_dataset_env) (Some ''2020-04-01'') (sort_values three_quarter_rows)
       = Inr [\<lparr>Date = Some 18353, Value = Some (Fin 2), Country = ''US''\<rparr>,
              \<lparr>Date = Some 18444, Value = Some (Fin 3), Country = ''US''\<rparr>]"
    unfolding s by simp
  with h1 h2 show ?thesis by blast
qed

lemma chart_fetch_is_simple:
  "chart_fetch_bis_data ev resource_id key = fetch_bis_data_simple ev resource_id key"
  by (simp add: chart_fetch_bis_data_def fetch_bis_data_simple_def)

text \<open>
  C5. When the fetch returns a text that the parser turns into no observation, both
  variants of \<open>bis_credit_chart\<close> return the response with status 404 and the error
  body, whatever units, theme, start date and mode the request carries: the answer is
  the early \<open>return\<close>, and nothing after it (date conversion, filter, pivot, transform,
  renderer) takes part in it.
\<close>

theorem empty_observation_set_gives_404:
  assumes "fetch_bis_data_simple ev resource_id key = Inr xml_text"
      and "parse_bis_xml ev xml_text = Inr []"
  shows "bis_credit_chart ev resource_id key units theme startdate mode
           = Inr (JSONResponse (ErrorBody ''No data returned from BIS.'') 404)
       \<and> chart_bis_credit_chart ev resource_id key units theme startdate mode
           = Inr (JSONResponse (ErrorBody ''No data returned from BIS.'') 404)"
  using assms
  by (simp add: bis_credit_chart_def chart_bis_credit_chart_def chart_fetch_is_simple chart_frame_def)

text \<open>C5 at an upstream that answers with a document without series.\<close>

theorem empty_observation_set_gives_404_witness:
  "fetch_bis_data_simple empty_dataset_env ''WS_TC'' ''Q.US.N.A.M.USD.A'' = Inr ''<DataSet/>''
   \<and> parse_bis_xml empty_dataset_env ''<DataSet/>'' = Inr []
   \<and> bis_credit_chart empty_dataset_env ''WS_TC'' ''Q.US.N.A.M.USD.A'' ''USD bn'' ''light'' (Some ''2020-04-01'') ''yoy''
        = Inr (JSONResponse (ErrorBody ''No data returned from BIS.'') 404)
   \<and> chart_bis_credit_chart empty_dataset_env ''WS_TC'' ''Q.US.N.A.M.USD.A'' ''USD bn'' ''light'' (Some ''2020-04-01'') ''yoy''
        = Inr (JSONResponse (ErrorBody ''No data returned from BIS.'') 404)"
proof -
  have h1: "fetch_bis_data_simple empty_dataset_env ''WS_TC'' ''Q.US.N.A.M.USD.A'' = Inr ''<DataSet/>''"
    by code_simp
  have h2: "parse_bis_xml empty_dataset_env ''<DataSet/>'' = Inr []"
    by code_simp
  show ?thesis
    using h1 h2 empty_observation_set_gives_404 [OF h1 h2, of "''USD bn''" "''light''" "Some ''2020-04-01''" "''yoy''"]
    by blast
qed

text \<open>
  \<open>fetch_bis_data\<close> never lets a \<open>RequestException\<close> out, while a request that raises
  leaves \<open>bis_credit_chart\<close> as it was raised.
\<close>

lemma fetch_bis_data_wraps:
  "fetch_bis_data ev context agency_id resource_id version key \<noteq> Inl (RequestException msg)"
  by (auto simp: fetch_bis_data_def Let_def split: sum.splits py_exn.splits)

lemma get_text_failure:
  "requests_get ev url = Raises msg \<Longrightarrow> get_text ev url = Inl (RequestException msg)"
  by (simp add: get_text_def)

lemma fetch_bis_data_simple_leaks:
  "requests_get ev (''https://stats.bis.org/api/v2/data/dataflow/BIS/'' @ resource_id @ ''/+/'' @ key) = Raises msg
   \<Longrightarrow> bis_credit_chart ev resource_id key units theme startdate mode = Inl (RequestException msg)"
  by (simp add: bis_credit_chart_def fetch_bis_data_simple_def get_text_failure)

text \<open>
  C6 fails on the code. \<open>fetch_bis_data_simple\<close> of BIS.py and \<open>fetch_bis_data\<close> of
  chart.py have no \<open>try\<close>: with an upstream that answers 503, or a request that times
  out, the \<open>RequestException\<close> leaves the fetch and the chart endpoint as it was raised,
  not as an \<open>HTTPException\<close> with status 500. \<open>fetch_bis_data\<close> of BIS.py, behind
  \<open>bis_credit_table\<close>, turns the same failure into that \<open>HTTPException\<close>.
\<close>

theorem chart_fetch_leaks_transport_exception:
  "fetch_bis_data_simple unavailable_env ''WS_TC'' ''Q.US.N.A.M.USD.A''
     = Inl (RequestException
         ''503 Server Error: Service Unavailable for url: https://stats.bis.org/api/v2/data/dataflow/BIS/WS_TC/+/Q.US.N.A.M.USD.A'')
   \<and> bis_credit_chart unavailable_env ''WS_TC'' ''Q.US.N.A.M.USD.A'' ''USD bn'' ''light'' None ''total''
     = Inl (RequestException
         ''503 Server Error: Service Unavailable for url: https://stats.bis.org/api/v2/data/dataflow/BIS/WS_TC/+/Q.US.N.A.M.USD.A'')
   \<and> chart_bis_credit_chart timeout_env ''WS_TC'' ''Q.US.N.A.M.USD.A'' ''USD bn'' ''light'' None ''total''
     = Inl (RequestException ''Read timed out.'')
   \<and> bis_credit_table unavailable_env ''WS_TC'' ''Q.US.N.A.M.USD.A''
     = Inl (HTTPException 500
         ''Error fetching BIS series: 503 Server Error: Service Unavailable for url: https://stats.bis.org/api/v2/data/dataflow/BIS/WS_TC/+/Q.US.N.A.M.USD.A'')"
  by code_simp

end
